theory Spec2Isabelle
  imports Main
begin

section \<open>Python values and truthiness\<close>

text \<open>
  The planner functions of \<^verbatim>\<open>NsxPluginV3Base\<close> combine their arguments with Python's
  \<^verbatim>\<open>and\<close>, \<^verbatim>\<open>or\<close> and \<^verbatim>\<open>not\<close>, which work on any value and return one of the
  operands. The values that reach them are \<^verbatim>\<open>None\<close>, booleans, integers and strings.
\<close>

datatype pyval = PyNone | PyBool bool | PyInt int | PyStr string

fun truthy :: "pyval \<Rightarrow> bool" where
  "truthy PyNone = False"
| "truthy (PyBool b) = b"
| "truthy (PyInt n) = (n \<noteq> 0)"
| "truthy (PyStr s) = (s \<noteq> [])"

definition py_and :: "pyval \<Rightarrow> pyval \<Rightarrow> pyval" where
  "py_and a b = (if truthy a then b else a)"

definition py_or :: "pyval \<Rightarrow> pyval \<Rightarrow> pyval" where
  "py_or a b = (if truthy a then a else b)"

definition py_not :: "pyval \<Rightarrow> pyval" where
  "py_not a = PyBool (\<not> truthy a)"

text \<open>Python's \<^verbatim>\<open>==\<close>: a boolean equals the integer 0 or 1 it stands for.\<close>

fun py_eq :: "pyval \<Rightarrow> pyval \<Rightarrow> bool" where
  "py_eq (PyBool a) (PyInt n) = ((if a then 1 else 0) = n)"
| "py_eq (PyInt n) (PyBool a) = (n = (if a then 1 else 0))"
| "py_eq a b = (a = b)"

definition py_ne :: "pyval \<Rightarrow> pyval \<Rightarrow> pyval" where
  "py_ne a b = PyBool (\<not> py_eq a b)"

section \<open>Router gateway update actions\<close>

text \<open>The dictionary returned by \<^verbatim>\<open>_get_update_router_gw_actions\<close>, one field per key.\<close>

record actions =
  remove_router_link_port :: pyval
  remove_snat_rules :: pyval
  remove_no_dnat_rules :: pyval
  revocate_bgp_announce :: pyval
  add_router_link_port :: pyval
  add_snat_rules :: pyval
  add_no_dnat_rules :: pyval
  bgp_announce :: pyval
  advertise_route_nat_flag :: pyval
  advertise_route_connected_flag :: pyval
  add_service_router :: pyval
  remove_service_router :: pyval

definition get_update_router_gw_actions ::
  "pyval \<Rightarrow> pyval \<Rightarrow> pyval \<Rightarrow> pyval \<Rightarrow> pyval \<Rightarrow> pyval \<Rightarrow> pyval \<Rightarrow> pyval \<Rightarrow> actions" where
  "get_update_router_gw_actions org_tier0_uuid orgaddr org_enable_snat
       new_tier0_uuid newaddr new_enable_snat lb_exist fw_exist =
    (let real_new_enable_snat = py_and new_enable_snat newaddr;
         real_org_enable_snat = py_and org_enable_snat orgaddr
     in \<lparr>
      remove_router_link_port =
        py_and org_tier0_uuid
          (py_or (py_not new_tier0_uuid) (py_ne org_tier0_uuid new_tier0_uuid)),
      remove_snat_rules =
        py_and (py_and org_enable_snat orgaddr)
          (py_or (py_ne newaddr orgaddr) (py_not new_enable_snat)),
      remove_no_dnat_rules =
        py_and (py_and orgaddr org_enable_snat)
          (py_or (py_not newaddr) (py_not new_enable_snat)),
      revocate_bgp_announce =
        py_and (py_and (py_not org_enable_snat) org_tier0_uuid)
          (py_or (py_ne new_tier0_uuid org_tier0_uuid) new_enable_snat),
      add_router_link_port =
        py_and new_tier0_uuid
          (py_or (py_not org_tier0_uuid) (py_ne org_tier0_uuid new_tier0_uuid)),
      add_snat_rules =
        py_and (py_and new_enable_snat newaddr)
          (py_or (py_ne newaddr orgaddr) (py_not org_enable_snat)),
      add_no_dnat_rules =
        py_and (py_and new_enable_snat newaddr)
          (py_or (py_not orgaddr) (py_not org_enable_snat)),
      bgp_announce =
        py_and (py_and (py_not new_enable_snat) new_tier0_uuid)
          (py_or (py_ne new_tier0_uuid org_tier0_uuid) (py_not org_enable_snat)),
      advertise_route_nat_flag =
        (if truthy new_enable_snat then PyBool True else PyBool False),
      advertise_route_connected_flag =
        (if truthy (py_not new_enable_snat) then PyBool True else PyBool False),
      add_service_router =
        py_and
          (py_or (py_and real_new_enable_snat (py_not real_org_enable_snat))
                 (py_and (py_and real_new_enable_snat (py_not orgaddr)) newaddr))
          (py_not (py_or fw_exist lb_exist)),
      remove_service_router =
        py_and
          (py_or (py_and (py_not real_new_enable_snat) real_org_enable_snat)
                 (py_and orgaddr (py_not newaddr)))
          (py_not (py_or fw_exist lb_exist))
     \<rparr>)"

text \<open>An action set in which no flag is true.\<close>

definition every_flag_false :: "actions \<Rightarrow> bool" where
  "every_flag_false a =
    (\<not> truthy (remove_router_link_port a) \<and> \<not> truthy (remove_snat_rules a) \<and>
     \<not> truthy (remove_no_dnat_rules a) \<and> \<not> truthy (revocate_bgp_announce a) \<and>
     \<not> truthy (add_router_link_port a) \<and> \<not> truthy (add_snat_rules a) \<and>
     \<not> truthy (add_no_dnat_rules a) \<and> \<not> truthy (bgp_announce a) \<and>
     \<not> truthy (advertise_route_nat_flag a) \<and> \<not> truthy (advertise_route_connected_flag a) \<and>
     \<not> truthy (add_service_router a) \<and> \<not> truthy (remove_service_router a))"

section \<open>Errors\<close>

text \<open>
  Every exception the modelled methods raise or let through. \<^verbatim>\<open>InvalidInput\<close> carries
  the message template; \<^verbatim>\<open>ResourceNotFound\<close> is a subclass of \<^verbatim>\<open>ManagerError\<close> in the
  backend library, which \<open>is_manager_error\<close> records.
\<close>

datatype error =
    InvalidInput string
  | VlanIdInUse pyval "string option"
  | NoNetworkAvailable
  | NotImplementedError string
  | ResourceNotFound
  | ManagerError
  | DBError
  | TimeoutError
  | NsxPluginException
  | QoSOnExternalNet
  | OtherException string

fun is_manager_error :: "error \<Rightarrow> bool" where
  "is_manager_error ManagerError = True"
| "is_manager_error ResourceNotFound = True"
| "is_manager_error _ = False"

fun is_db_or_timeout_error :: "error \<Rightarrow> bool" where
  "is_db_or_timeout_error DBError = True"
| "is_db_or_timeout_error TimeoutError = True"
| "is_db_or_timeout_error _ = False"

section \<open>Request attributes\<close>

text \<open>
  A request dictionary holds, for each key, no value (\<^verbatim>\<open>.get\<close> gives \<^verbatim>\<open>None\<close>), the
  sentinel \<^verbatim>\<open>ATTR_NOT_SPECIFIED\<close>, or a value. \<^verbatim>\<open>validators.is_attr_set\<close> is false for
  the first two.
\<close>

datatype 'a attr = AttrNone | AttrNotSpecified | Attr 'a

fun is_attr_set :: "'a attr \<Rightarrow> bool" where
  "is_attr_set (Attr _) = True"
| "is_attr_set _ = False"

section \<open>Segment allocation\<close>

definition MIN_VLAN_TAG :: int where
  "MIN_VLAN_TAG = 1"

definition MAX_VLAN_TAG :: int where
  "MAX_VLAN_TAG = 4094"

text \<open>\<^verbatim>\<open>plugin_utils.is_valid_vlan_tag\<close>: the tag lies in the legal VLAN range.\<close>

fun is_valid_vlan_tag :: "pyval \<Rightarrow> bool" where
  "is_valid_vlan_tag (PyInt n) = (MIN_VLAN_TAG \<le> n \<and> n \<le> MAX_VLAN_TAG)"
| "is_valid_vlan_tag _ = False"

text \<open>The provider network types of \<^verbatim>\<open>utils.NsxV3NetworkTypes\<close>, and any other string.\<close>

datatype net_type = FLAT | VLAN | GENEVE | NSX_NETWORK | OtherNetType string

datatype transport_type = TRANSPORT_TYPE_VLAN | TRANSPORT_TYPE_OVERLAY

datatype switch_mode = HOST_SWITCH_MODE_STANDARD | HOST_SWITCH_MODE_ENS

text \<open>A row of the network binding table.\<close>

record network_binding =
  nb_network_id :: string
  nb_binding_type :: net_type
  nb_phy_uuid :: "string option"
  nb_vlan_id :: "int option"

text \<open>
  Modelled from the spec: the binding store's queries \<^verbatim>\<open>get_network_bindings_by_phy_uuid\<close>
  and \<^verbatim>\<open>get_network_bindings_by_vlanid_and_physical_net\<close> of \<^verbatim>\<open>vmware_nsx.db.db\<close>
  (query bindings by physical network, and by physical network and tag).
\<close>

definition get_network_bindings_by_phy_uuid ::
  "network_binding list \<Rightarrow> string option \<Rightarrow> network_binding list" where
  "get_network_bindings_by_phy_uuid session physical_network =
     filter (\<lambda>b. nb_phy_uuid b = physical_network) session"

definition get_network_bindings_by_vlanid_and_physical_net ::
  "network_binding list \<Rightarrow> int \<Rightarrow> string option \<Rightarrow> network_binding list" where
  "get_network_bindings_by_vlanid_and_physical_net session vlan physical_network =
     filter (\<lambda>b. nb_vlan_id b = Some vlan \<and> nb_phy_uuid b = physical_network) session"

text \<open>The provider attributes and QoS policy of a network create request.\<close>

record network_data =
  nd_network_type :: "net_type attr"
  nd_physical_network :: "string attr"
  nd_segmentation_id :: "int attr"
  nd_qos_policy_id :: "string attr"

text \<open>\<^verbatim>\<open>set(range(vlan_min, vlan_max + 1))\<close>, united over the configured ranges.\<close>

fun range_ids :: "(int \<times> int) list \<Rightarrow> int set" where
  "range_ids [] = {}"
| "range_ids ((vlan_min, vlan_max) # rs) = {vlan_min..vlan_max} \<union> range_ids rs"

text \<open>Python's \<^verbatim>\<open>^\<close> on sets.\<close>

definition py_set_xor :: "'a set \<Rightarrow> 'a set \<Rightarrow> 'a set" where
  "py_set_xor A B = (A - B) \<union> (B - A)"

text \<open>
  \<^verbatim>\<open>self._network_vlans.get(physical_network, [])\<close>, and the candidate tags built from it:
  the configured ranges, or the whole legal range when there is none.
\<close>

definition vlan_ranges_of :: "(string \<rightharpoonup> (int \<times> int) list) \<Rightarrow> string option \<Rightarrow> (int \<times> int) list" where
  "vlan_ranges_of network_vlans physical_network =
     (case physical_network of
        None \<Rightarrow> []
      | Some p \<Rightarrow> (case network_vlans p of None \<Rightarrow> [] | Some rs \<Rightarrow> rs))"

definition candidate_vlan_ids :: "(string \<rightharpoonup> (int \<times> int) list) \<Rightarrow> string option \<Rightarrow> int set" where
  "candidate_vlan_ids network_vlans physical_network =
     (let vlan_ranges = vlan_ranges_of network_vlans physical_network
      in if vlan_ranges \<noteq> [] then range_ids vlan_ranges
         else {MIN_VLAN_TAG..MAX_VLAN_TAG})"

text \<open>The segmentation ids bound to a physical network in the binding store.\<close>

definition used_vlan_ids :: "network_binding list \<Rightarrow> string option \<Rightarrow> int option set" where
  "used_vlan_ids session physical_network =
     set (map nb_vlan_id (get_network_bindings_by_phy_uuid session physical_network))"

text \<open>
  \<^verbatim>\<open>_generate_segment_id\<close>. Python does not fix the order in which \<^verbatim>\<open>list\<close> enumerates a
  set, so the enumeration is the parameter \<open>list_of_set\<close>. The result is the request with
  its segmentation id overwritten, and the tag.
\<close>

definition generate_segment_id ::
  "(int set \<Rightarrow> int list) \<Rightarrow> network_binding list \<Rightarrow> (string \<rightharpoonup> (int \<times> int) list) \<Rightarrow>
   string option \<Rightarrow> network_data \<Rightarrow> error + (network_data \<times> int)" where
  "generate_segment_id list_of_set session network_vlans physical_network net_data =
    (let bindings = get_network_bindings_by_phy_uuid session physical_network;
         vlan_ids = candidate_vlan_ids network_vlans physical_network;
         used_ids_in_range =
           set [v. Some v \<leftarrow> map nb_vlan_id bindings, v \<in> vlan_ids];
         free_ids = list_of_set (py_set_xor vlan_ids used_ids_in_range)
     in case free_ids of
          [] \<Rightarrow> Inl NoNetworkAvailable
        | first # _ \<Rightarrow> Inr (net_data\<lparr>nd_segmentation_id := Attr first\<rparr>, first))"

text \<open>
  The bounds the specification gives for an allocated tag: inside one of the ranges
  configured for the physical network, or inside the legal range when none is configured.
\<close>

definition spec_tag_in_bounds :: "(int \<times> int) list \<Rightarrow> int \<Rightarrow> bool" where
  "spec_tag_in_bounds vlan_ranges tag =
     (if vlan_ranges \<noteq> []
      then list_ex (\<lambda>(vlan_min, vlan_max). vlan_min \<le> tag \<and> tag \<le> vlan_max) vlan_ranges
      else MIN_VLAN_TAG \<le> tag \<and> tag \<le> MAX_VLAN_TAG)"

text \<open>An enumeration of finite sets: what \<^verbatim>\<open>list\<close> of a set is, whatever its order.\<close>

definition enumerates_sets :: "(int set \<Rightarrow> int list) \<Rightarrow> bool" where
  "enumerates_sets list_of_set = (\<forall>S. finite S \<longrightarrow> set (list_of_set S) = S)"

section \<open>Provider network validation\<close>

text \<open>
  What \<^verbatim>\<open>_validate_provider_create\<close> reads besides its arguments: the enumeration order
  of sets, the binding store, the configured VLAN ranges, the backend's transport zones
  (\<open>None\<close> where the backend raises \<^verbatim>\<open>ResourceNotFound\<close>), the transport zone of a
  backend logical switch (\<^verbatim>\<open>_get_nsx_net_tz_id\<close> of \<^verbatim>\<open>nsxlib_network.get\<close>), and
  \<^verbatim>\<open>_allow_ens_networks\<close>.
\<close>

record provider_env =
  pe_list_of_set :: "int set \<Rightarrow> int list"
  pe_session :: "network_binding list"
  pe_network_vlans :: "string \<rightharpoonup> (int \<times> int) list"
  pe_get_transport_type :: "string \<Rightarrow> transport_type option"
  pe_get_host_switch_mode :: "string \<Rightarrow> switch_mode option"
  pe_nsx_net_tz_id :: "string \<Rightarrow> string option"
  pe_allow_ens_networks :: bool

text \<open>The dictionary \<^verbatim>\<open>_validate_provider_create\<close> returns.\<close>

record provider_result =
  r_is_provider_net :: bool
  r_net_type :: "net_type option"
  r_physical_net :: "string option"
  r_vlan_id :: pyval
  r_switch_mode :: switch_mode

text \<open>The local variables of \<^verbatim>\<open>_validate_provider_create\<close> after the network type checks.\<close>

record provider_locals =
  l_err_msg :: "string option"
  l_physical_net :: "string option"
  l_vlan_id :: pyval
  l_tz_type :: transport_type
  l_switch_mode :: switch_mode
  l_network_data :: network_data

definition msg_transparent_vlan :: string where
  "msg_transparent_vlan = ''Segmentation ID cannot be set with transparent vlan!''"

definition msg_segid_with_type :: string where
  "msg_segid_with_type = ''Segmentation ID cannot be specified with %s network type''"

definition msg_segid_out_of_range :: string where
  "msg_segid_out_of_range =
     ''Segmentation ID %(seg_id)s out of range (%(min_id)s through %(max_id)s)''"

definition msg_physical_net_required :: string where
  "msg_physical_net_required = ''Physical network must be specified with %s network type''"

definition msg_switch_not_found :: string where
  "msg_switch_not_found = ''Logical switch %s does not exist''"

definition msg_switch_in_use :: string where
  "msg_switch_in_use = ''Logical switch %s is already used by another network''"

definition msg_type_not_supported :: string where
  "msg_type_not_supported = ''%(net_type_param)s %(net_type_value)s not supported''"

definition msg_type_required :: string where
  "msg_type_required = ''%s is required for creating a provider network''"

definition msg_tz_not_found :: string where
  "msg_tz_not_found = ''Transport zone %s does not exist''"

definition msg_tz_type_required :: string where
  "msg_tz_type_required =
     ''%(tz)s transport zone is required for creating a %(net)s provider network''"

definition msg_ens_disabled :: string where
  "msg_ens_disabled = ''ENS support is disabled''"

definition msg_ens_qos :: string where
  "msg_ens_qos = ''Cannot configure QOS on ENS networks''"

text \<open>The binding store's query by tag and physical network, for the tag as a Python value.\<close>

definition bindings_by_vlanid_and_physical_net ::
  "network_binding list \<Rightarrow> pyval \<Rightarrow> string option \<Rightarrow> network_binding list" where
  "bindings_by_vlanid_and_physical_net session vlan physical_network =
     (case vlan of
        PyInt n \<Rightarrow> get_network_bindings_by_vlanid_and_physical_net session n physical_network
      | _ \<Rightarrow> [])"

text \<open>\<^verbatim>\<open>_assert_on_ens_with_qos\<close>.\<close>

definition assert_on_ens_with_qos :: "network_data \<Rightarrow> error + unit" where
  "assert_on_ens_with_qos net_data =
     (if is_attr_set (nd_qos_policy_id net_data) then Inl (InvalidInput msg_ens_qos)
      else Inr ())"

text \<open>
  Lines 715 to 795 of \<^verbatim>\<open>_validate_provider_create\<close>: the checks that depend on the
  network type. An exception raised here leaves the request as it was.
\<close>

definition provider_type_checks ::
  "provider_env \<Rightarrow> network_data \<Rightarrow> string option \<Rightarrow> bool \<Rightarrow> bool \<Rightarrow>
   string option \<Rightarrow> pyval \<Rightarrow> error + provider_locals" where
  "provider_type_checks env network_data default_vlan_tz_uuid transparent_vlan
       is_provider_net physical_net vlan_id =
    (let init = \<lparr>l_err_msg = None, l_physical_net = physical_net, l_vlan_id = vlan_id,
                 l_tz_type = TRANSPORT_TYPE_VLAN, l_switch_mode = HOST_SWITCH_MODE_STANDARD,
                 l_network_data = network_data\<rparr>
     in case nd_network_type network_data of
       Attr FLAT \<Rightarrow>
         (if vlan_id \<noteq> PyNone then Inr (init\<lparr>l_err_msg := Some msg_segid_with_type\<rparr>)
          else Inr (init\<lparr>
            l_vlan_id := (if \<not> transparent_vlan then PyStr ''0'' else vlan_id),
            l_physical_net :=
              (if physical_net = None then default_vlan_tz_uuid else physical_net)\<rparr>))
     | Attr VLAN \<Rightarrow>
         (let physical_net =
                (if physical_net = None then default_vlan_tz_uuid else physical_net);
              init = init\<lparr>l_physical_net := physical_net\<rparr>
          in if \<not> transparent_vlan then
               (if \<not> truthy vlan_id then
                  (case generate_segment_id (pe_list_of_set env) (pe_session env)
                          (pe_network_vlans env) physical_net network_data of
                     Inl e \<Rightarrow> Inl e
                   | Inr (net_data', tag) \<Rightarrow>
                       Inr (init\<lparr>l_vlan_id := PyInt tag, l_network_data := net_data'\<rparr>))
                else if \<not> is_valid_vlan_tag vlan_id then
                  Inr (init\<lparr>l_err_msg := Some msg_segid_out_of_range\<rparr>)
                else if bindings_by_vlanid_and_physical_net (pe_session env) vlan_id
                          physical_net \<noteq> []
                  then Inl (VlanIdInUse vlan_id physical_net)
                else Inr init)
             else Inr init)
     | Attr GENEVE \<Rightarrow>
         Inr (init\<lparr>
           l_err_msg := (if truthy vlan_id then Some msg_segid_with_type else None),
           l_tz_type := TRANSPORT_TYPE_OVERLAY\<rparr>)
     | Attr NSX_NETWORK \<Rightarrow>
         (case physical_net of
            None \<Rightarrow> Inr (init\<lparr>l_err_msg := Some msg_physical_net_required\<rparr>)
          | Some p \<Rightarrow>
              if p = [] then Inr (init\<lparr>l_err_msg := Some msg_physical_net_required\<rparr>)
              else
                (let found =
                       (case pe_nsx_net_tz_id env p of
                          None \<Rightarrow> None
                        | Some tz_id \<Rightarrow> pe_get_host_switch_mode env tz_id);
                     init =
                       (case found of
                          None \<Rightarrow> init\<lparr>l_err_msg := Some msg_switch_not_found\<rparr>
                        | Some m \<Rightarrow> init\<lparr>l_switch_mode := m\<rparr>)
                 in if bindings_by_vlanid_and_physical_net (pe_session env) (PyInt 0)
                         physical_net \<noteq> []
                    then Inr (init\<lparr>l_err_msg := Some msg_switch_in_use\<rparr>)
                    else Inr init))
     | Attr (OtherNetType t) \<Rightarrow> Inr (init\<lparr>l_err_msg := Some msg_type_not_supported\<rparr>)
     | _ \<Rightarrow>
         (if is_provider_net then Inr (init\<lparr>l_err_msg := Some msg_type_required\<rparr>)
          else Inr init))"

text \<open>
  Lines 801 to 817 of \<^verbatim>\<open>_validate_provider_create\<close>: the transport zone is looked up,
  and its type compared, when no error is pending, the physical network is not empty and
  the network is not linked to a backend switch. The result is the pending error message
  and the switch mode; \<^verbatim>\<open>get_host_switch_mode\<close> may raise \<open>ResourceNotFound\<close>.
\<close>

definition provider_tz_lookup ::
  "provider_env \<Rightarrow> bool \<Rightarrow> net_type option \<Rightarrow> provider_locals \<Rightarrow> string option \<Rightarrow>
   error + (string option \<times> switch_mode)" where
  "provider_tz_lookup env is_provider_net net_type l physical_net =
     (case physical_net of
        None \<Rightarrow> Inr (l_err_msg l, l_switch_mode l)
      | Some p \<Rightarrow>
          if l_err_msg l = None \<and> p \<noteq> [] \<and> net_type \<noteq> Some NSX_NETWORK then
            (let err_msg =
                   (if is_provider_net then
                      (case pe_get_transport_type env p of
                         None \<Rightarrow> Some msg_tz_not_found
                       | Some backend_type \<Rightarrow>
                           if backend_type \<noteq> l_tz_type l
                           then Some msg_tz_type_required else None)
                    else None)
             in if err_msg = None then
                  (case pe_get_host_switch_mode env p of
                     None \<Rightarrow> Inl ResourceNotFound
                   | Some m \<Rightarrow> Inr (err_msg, m))
                else Inr (err_msg, l_switch_mode l))
          else Inr (l_err_msg l, l_switch_mode l))"

text \<open>
  Lines 822 to 832: the checks for an ENS transport zone, then the dictionary is returned.
  \<^verbatim>\<open>_validate_ens_net_portsecurity\<close> does nothing in this class.
\<close>

definition provider_ens_checks ::
  "provider_env \<Rightarrow> network_data \<Rightarrow> provider_result \<Rightarrow> error + provider_result" where
  "provider_ens_checks env network_data result =
     (if r_switch_mode result = HOST_SWITCH_MODE_ENS then
        (if \<not> pe_allow_ens_networks env then Inl (NotImplementedError msg_ens_disabled)
         else (case assert_on_ens_with_qos network_data of
                 Inl e \<Rightarrow> Inl e
               | Inr _ \<Rightarrow> Inr result))
      else Inr result)"

text \<open>
  Lines 797 to 832: the physical network defaults to the overlay transport zone, the
  transport zone checks run, a pending error message is raised as \<open>InvalidInput\<close>, and
  the ENS checks run.
\<close>

definition provider_tz_checks ::
  "provider_env \<Rightarrow> string option \<Rightarrow> bool \<Rightarrow> net_type option \<Rightarrow> provider_locals \<Rightarrow>
   error + provider_result" where
  "provider_tz_checks env default_overlay_tz_uuid is_provider_net net_type l =
    (let physical_net =
           (if l_physical_net l = None then default_overlay_tz_uuid else l_physical_net l)
     in case provider_tz_lookup env is_provider_net net_type l physical_net of
          Inl e \<Rightarrow> Inl e
        | Inr (Some msg, _) \<Rightarrow> Inl (InvalidInput msg)
        | Inr (None, switch_mode) \<Rightarrow>
            provider_ens_checks env (l_network_data l)
              \<lparr>r_is_provider_net = is_provider_net, r_net_type = net_type,
               r_physical_net = physical_net, r_vlan_id = l_vlan_id l,
               r_switch_mode = switch_mode\<rparr>)"

text \<open>
  \<^verbatim>\<open>_validate_provider_create\<close>. The first component of the result is the request after
  the call, which \<^verbatim>\<open>_generate_segment_id\<close> may have written to; the second is the
  exception raised or the dictionary returned.
\<close>

definition attr_value :: "'a attr \<Rightarrow> 'a option" where
  "attr_value a = (case a of Attr v \<Rightarrow> Some v | _ \<Rightarrow> None)"

definition validate_provider_create ::
  "provider_env \<Rightarrow> network_data \<Rightarrow> string option \<Rightarrow> string option \<Rightarrow> bool \<Rightarrow>
   network_data \<times> (error + provider_result)" where
  "validate_provider_create env network_data default_vlan_tz_uuid default_overlay_tz_uuid
       transparent_vlan =
    (let is_provider_net =
           (is_attr_set (nd_network_type network_data) \<or>
            is_attr_set (nd_physical_network network_data) \<or>
            is_attr_set (nd_segmentation_id network_data));
         physical_net = attr_value (nd_physical_network network_data);
         vlan_id = (case nd_segmentation_id network_data of Attr n \<Rightarrow> PyInt n | _ \<Rightarrow> PyNone)
     in if truthy vlan_id \<and> transparent_vlan
        then (network_data, Inl (InvalidInput msg_transparent_vlan))
        else
          (case provider_type_checks env network_data default_vlan_tz_uuid transparent_vlan
                  is_provider_net physical_net vlan_id of
             Inl e \<Rightarrow> (network_data, Inl e)
           | Inr l \<Rightarrow>
               (l_network_data l,
                provider_tz_checks env default_overlay_tz_uuid is_provider_net
                  (attr_value (nd_network_type network_data)) l)))"

text \<open>
  The physical network a VLAN request is checked against (its own, or the default VLAN
  transport zone), and the segmentation id it carries, as the planner reads them.
\<close>

definition effective_physical_net :: "network_data \<Rightarrow> string option \<Rightarrow> string option" where
  "effective_physical_net network_data default_vlan_tz_uuid =
     (case nd_physical_network network_data of Attr p \<Rightarrow> Some p | _ \<Rightarrow> default_vlan_tz_uuid)"

definition requested_vlan_id :: "network_data \<Rightarrow> pyval" where
  "requested_vlan_id network_data =
     (case nd_segmentation_id network_data of Attr n \<Rightarrow> PyInt n | _ \<Rightarrow> PyNone)"

section \<open>Port validation\<close>

text \<open>Python's \<^verbatim>\<open>str.startswith\<close>.\<close>

definition startswith :: "string \<Rightarrow> string \<Rightarrow> bool" where
  "startswith s p = (take (length p) s = p)"

text \<open>The device owner constants of \<^verbatim>\<open>neutron_lib.constants\<close> and \<^verbatim>\<open>l3_db\<close>.\<close>

definition DEVICE_OWNER_COMPUTE_PREFIX :: string where
  "DEVICE_OWNER_COMPUTE_PREFIX = ''compute:''"

definition DEVICE_OWNER_NETWORK_PREFIX :: string where
  "DEVICE_OWNER_NETWORK_PREFIX = ''network:''"

definition DEVICE_OWNER_DHCP :: string where
  "DEVICE_OWNER_DHCP = ''network:dhcp''"

definition DEVICE_OWNER_ROUTER_INTF :: string where
  "DEVICE_OWNER_ROUTER_INTF = ''network:router_interface''"

definition DEVICE_OWNER_ROUTER_GW :: string where
  "DEVICE_OWNER_ROUTER_GW = ''network:router_gateway''"

definition DEVICE_OWNER_LOADBALANCERV2 :: string where
  "DEVICE_OWNER_LOADBALANCERV2 = ''neutron:LOADBALANCERV2''"

text \<open>
  The keys of a port request that the validation reads. \<open>None\<close> is a key that is not in
  the dictionary.
\<close>

record port_data =
  pd_id :: string
  pd_network_id :: string
  pd_device_owner :: "string option"
  pd_fixed_ips :: "string list option"
  pd_allowed_address_pairs :: "string list option"
  pd_qos_policy_id :: "string attr"
  pd_port_security :: "bool attr"
  pd_mac_learning :: "bool attr"
  pd_admin_state_up :: "bool attr"

text \<open>
  What the port validation calls outside this class: \<^verbatim>\<open>_network_is_external\<close>,
  \<^verbatim>\<open>_validate_qos_policy_id\<close> and \<^verbatim>\<open>_validate_max_ips_per_port\<close> (\<open>Some\<close> is the
  exception they raise), and the constant \<^verbatim>\<open>ipsec_utils.VPN_PORT_OWNER\<close>.
\<close>

record port_env =
  pv_network_is_external :: "string \<Rightarrow> bool"
  pv_validate_qos_policy_id :: "string attr \<Rightarrow> error option"
  pv_validate_max_ips_per_port :: "string list \<Rightarrow> string option \<Rightarrow> error option"
  pv_VPN_PORT_OWNER :: string

definition msg_qos_port :: string where
  "msg_qos_port = ''Unable to create or update %s port with a QoS policy''"

definition msg_external_compute :: string where
  "msg_external_compute = ''Unable to update/create a port with an external network''"

definition msg_vpn_port :: string where
  "msg_vpn_port = ''Can not update/delete VPNaaS port %s''"

definition msg_lb_fixed_ip :: string where
  "msg_lb_fixed_ip = ''Can not update Loadbalancer port with fixed IP''"

definition msg_lb_address_pairs :: string where
  "msg_lb_address_pairs = ''Loadbalancer port can not be updated with address pairs''"

definition msg_device_owner_change :: string where
  "msg_device_owner_change =
     ''Changing port device owner %(orig)s to %(new)s is not allowed''"

definition msg_psec_trusted :: string where
  "msg_psec_trusted = ''port_security_enabled=True is not supported for trusted ports''"

definition msg_mac_trusted :: string where
  "msg_mac_trusted = ''mac_learning_enabled=True is not supported for trusted ports''"

definition msg_admin_state :: string where
  "msg_admin_state = ''admin_state_up=False router ports are not supported''"

text \<open>Calling \<^verbatim>\<open>startswith\<close> on \<^verbatim>\<open>None\<close>.\<close>

definition AttributeError :: error where
  "AttributeError = OtherException ''AttributeError''"

text \<open>An exception, if one is raised, as a result.\<close>

definition raise_if :: "error option \<Rightarrow> error + unit" where
  "raise_if e = (case e of None \<Rightarrow> Inr () | Some x \<Rightarrow> Inl x)"

text \<open>Sequencing of calls that may raise.\<close>

definition and_then :: "error + unit \<Rightarrow> error + unit \<Rightarrow> error + unit" where
  "and_then a b = (case a of Inl e \<Rightarrow> Inl e | Inr _ \<Rightarrow> b)"

text \<open>
  \<^verbatim>\<open>nl_net_utils.is_port_trusted\<close>: the device owner starts with the network prefix.
\<close>

definition is_port_trusted :: "string option \<Rightarrow> error + bool" where
  "is_port_trusted device_owner =
     (case device_owner of
        None \<Rightarrow> Inl AttributeError
      | Some d \<Rightarrow> Inr (startswith d DEVICE_OWNER_NETWORK_PREFIX))"

definition assert_on_illegal_port_with_qos :: "string option \<Rightarrow> error + unit" where
  "assert_on_illegal_port_with_qos device_owner =
     (if device_owner = Some DEVICE_OWNER_ROUTER_INTF \<or> device_owner = Some DEVICE_OWNER_DHCP
      then Inl (InvalidInput msg_qos_port) else Inr ())"

definition assert_on_external_net_with_compute :: "port_data \<Rightarrow> error + unit" where
  "assert_on_external_net_with_compute port_data =
     (case pd_device_owner port_data of
        None \<Rightarrow> Inr ()
      | Some device_owner \<Rightarrow>
          if startswith device_owner DEVICE_OWNER_COMPUTE_PREFIX
          then Inl (InvalidInput msg_external_compute) else Inr ())"

definition assert_on_port_admin_state :: "port_data \<Rightarrow> string option \<Rightarrow> error + unit" where
  "assert_on_port_admin_state port_data device_owner =
     (if device_owner = Some DEVICE_OWNER_ROUTER_INTF \<or>
         device_owner = Some DEVICE_OWNER_ROUTER_GW
      then (if pd_admin_state_up port_data = Attr False
            then Inl (InvalidInput msg_admin_state) else Inr ())
      else Inr ())"

definition validate_create_port :: "port_env \<Rightarrow> port_data \<Rightarrow> error + unit" where
  "validate_create_port env port_data =
    and_then
      (raise_if (pv_validate_max_ips_per_port env
         (case pd_fixed_ips port_data of None \<Rightarrow> [] | Some ips \<Rightarrow> ips)
         (pd_device_owner port_data)))
      (let is_external_net = pv_network_is_external env (pd_network_id port_data);
           qos_selected = is_attr_set (pd_qos_policy_id port_data);
           device_owner = pd_device_owner port_data
       in and_then
            (if qos_selected then
               and_then (raise_if (pv_validate_qos_policy_id env (pd_qos_policy_id port_data)))
              (and_then (assert_on_illegal_port_with_qos device_owner)
                 (if is_external_net then Inl QoSOnExternalNet else Inr ()))
             else Inr ())
           (and_then
              (if is_external_net then assert_on_external_net_with_compute port_data
               else Inr ())
              (assert_on_port_admin_state port_data device_owner)))"

text \<open>The keys of the stored port that the update validation reads.\<close>

record original_port =
  op_id :: string
  op_network_id :: string
  op_device_owner :: "string option"

definition assert_on_vpn_port_change :: "port_env \<Rightarrow> original_port \<Rightarrow> error + unit" where
  "assert_on_vpn_port_change env port_data =
     (if op_device_owner port_data = Some (pv_VPN_PORT_OWNER env)
      then Inl (InvalidInput msg_vpn_port) else Inr ())"

definition assert_on_lb_port_fixed_ip_change ::
  "port_data \<Rightarrow> string option \<Rightarrow> error + unit" where
  "assert_on_lb_port_fixed_ip_change port_data orig_dev_own =
     (if orig_dev_own = Some DEVICE_OWNER_LOADBALANCERV2 then
        (case pd_fixed_ips port_data of
           None \<Rightarrow> Inr ()
         | Some ips \<Rightarrow> if ips \<noteq> [] then Inl (InvalidInput msg_lb_fixed_ip) else Inr ())
      else Inr ())"

definition assert_on_device_owner_change ::
  "port_data \<Rightarrow> string option \<Rightarrow> error + unit" where
  "assert_on_device_owner_change port_data orig_dev_own =
    and_then
      (if orig_dev_own = Some DEVICE_OWNER_LOADBALANCERV2 then
         (case pd_allowed_address_pairs port_data of
            None \<Rightarrow> Inr ()
          | Some pairs \<Rightarrow>
              if pairs \<noteq> [] then Inl (InvalidInput msg_lb_address_pairs) else Inr ())
       else Inr ())
      (case pd_device_owner port_data of
         None \<Rightarrow> Inr ()
       | Some new_dev_own \<Rightarrow>
           if Some new_dev_own = orig_dev_own then Inr ()
           else
             (case orig_dev_own of
                None \<Rightarrow> Inl AttributeError
              | Some orig \<Rightarrow>
                  if (startswith orig DEVICE_OWNER_COMPUTE_PREFIX \<and>
                      startswith new_dev_own DEVICE_OWNER_NETWORK_PREFIX) \<or>
                     (startswith orig DEVICE_OWNER_NETWORK_PREFIX \<and>
                      startswith new_dev_own DEVICE_OWNER_COMPUTE_PREFIX)
                  then Inl (InvalidInput msg_device_owner_change)
                  else if orig = DEVICE_OWNER_DHCP
                  then Inl (InvalidInput msg_device_owner_change)
                  else Inr ()))"

definition assert_on_port_sec_change :: "port_data \<Rightarrow> string option \<Rightarrow> error + unit" where
  "assert_on_port_sec_change port_data device_owner =
     (case is_port_trusted device_owner of
        Inl e \<Rightarrow> Inl e
      | Inr trusted \<Rightarrow>
          if trusted then
            (if pd_port_security port_data = Attr True
             then Inl (InvalidInput msg_psec_trusted)
             else if pd_mac_learning port_data = Attr True
             then Inl (InvalidInput msg_mac_trusted)
             else Inr ())
          else Inr ())"

text \<open>The device owner an update leaves on the port: the requested one, else the stored one.\<close>

definition updated_device_owner :: "original_port \<Rightarrow> port_data \<Rightarrow> string option" where
  "updated_device_owner original port_data =
     (case pd_device_owner port_data of
        Some d \<Rightarrow> Some d
      | None \<Rightarrow> op_device_owner original)"

definition validate_update_port ::
  "port_env \<Rightarrow> original_port \<Rightarrow> port_data \<Rightarrow> error + unit" where
  "validate_update_port env original port_data =
    (let qos_selected = is_attr_set (pd_qos_policy_id port_data);
         is_external_net = pv_network_is_external env (op_network_id original);
         device_owner = updated_device_owner original port_data;
         orig_dev_owner = op_device_owner original
     in and_then
          (if qos_selected then
             and_then (raise_if (pv_validate_qos_policy_id env (pd_qos_policy_id port_data)))
            (and_then (if is_external_net then Inl QoSOnExternalNet else Inr ())
               (assert_on_illegal_port_with_qos device_owner))
           else Inr ())
        (and_then
          (if is_external_net then assert_on_external_net_with_compute port_data else Inr ())
        (and_then (assert_on_device_owner_change port_data orig_dev_owner)
        (and_then (assert_on_port_admin_state port_data device_owner)
        (and_then (assert_on_port_sec_change port_data device_owner)
        (and_then
          (raise_if (pv_validate_max_ips_per_port env
             (case pd_fixed_ips port_data of None \<Rightarrow> [] | Some ips \<Rightarrow> ips) device_owner))
        (and_then (assert_on_vpn_port_change env original)
          (assert_on_lb_port_fixed_ip_change port_data orig_dev_owner))))))))"

text \<open>
  Lines 500 to 515 of \<^verbatim>\<open>_validate_update_port\<close>: the checks that run before the check of
  the port security change.
\<close>

definition update_checks_before_port_sec ::
  "port_env \<Rightarrow> original_port \<Rightarrow> port_data \<Rightarrow> error + unit" where
  "update_checks_before_port_sec env original port_data =
    (let qos_selected = is_attr_set (pd_qos_policy_id port_data);
         is_external_net = pv_network_is_external env (op_network_id original);
         device_owner = updated_device_owner original port_data;
         orig_dev_owner = op_device_owner original
     in and_then
          (if qos_selected then
             and_then (raise_if (pv_validate_qos_policy_id env (pd_qos_policy_id port_data)))
            (and_then (if is_external_net then Inl QoSOnExternalNet else Inr ())
               (assert_on_illegal_port_with_qos device_owner))
           else Inr ())
        (and_then
          (if is_external_net then assert_on_external_net_with_compute port_data else Inr ())
        (and_then (assert_on_device_owner_change port_data orig_dev_owner)
          (assert_on_port_admin_state port_data device_owner))))"

text \<open>An environment with no external network, in which the outside checks pass.\<close>

definition plain_port_env :: port_env where
  "plain_port_env =
     \<lparr>pv_network_is_external = (\<lambda>_. False), pv_validate_qos_policy_id = (\<lambda>_. None),
      pv_validate_max_ips_per_port = (\<lambda>_ _. None), pv_VPN_PORT_OWNER = ''vpnservice''\<rparr>"

text \<open>A request for a DHCP port with port security enabled.\<close>

definition dhcp_port_request :: port_data where
  "dhcp_port_request =
     \<lparr>pd_id = ''port-1'', pd_network_id = ''net-a'', pd_device_owner = Some ''network:dhcp'',
      pd_fixed_ips = None, pd_allowed_address_pairs = None, pd_qos_policy_id = AttrNone,
      pd_port_security = Attr True, pd_mac_learning = AttrNone,
      pd_admin_state_up = Attr True\<rparr>"

definition dhcp_original_port :: original_port where
  "dhcp_original_port =
     \<lparr>op_id = ''port-1'', op_network_id = ''net-a'', op_device_owner = Some ''network:dhcp''\<rparr>"

section \<open>Reverting a port update\<close>

text \<open>
  A port dictionary as \<^verbatim>\<open>_revert_neutron_port_update\<close> reads it: its id, its allowed
  address pairs (\<open>None\<close> when the key is missing), its security groups, and the rest of
  its attributes.
\<close>

record port_dict =
  p_id :: string
  p_name :: string
  p_allowed_address_pairs :: "string list option"
  p_security_groups :: "string list"

text \<open>
  The local store: the port rows, the allowed address pair rows of each port and the
  security group bindings of each port.
\<close>

record port_store =
  ps_ports :: "string \<rightharpoonup> port_dict"
  ps_address_pairs :: "string \<Rightarrow> string list"
  ps_security_groups :: "string \<Rightarrow> string list"

text \<open>
  Modelled from the spec: the store operations of the Neutron mixins that the rollback
  calls (\<^verbatim>\<open>update_port\<close> of the base plugin, \<^verbatim>\<open>_delete_allowed_address_pairs\<close>,
  \<^verbatim>\<open>_process_create_allowed_address_pairs\<close>, \<^verbatim>\<open>update_security_group_on_port\<close>):
  write the port row, delete the address pair rows of a port, add address pair rows for a
  port, and set the security group bindings of a port to those of the given port.
\<close>

definition update_port :: "port_store \<Rightarrow> string \<Rightarrow> port_dict \<Rightarrow> port_store" where
  "update_port st port_id port = st\<lparr>ps_ports := (ps_ports st)(port_id \<mapsto> port)\<rparr>"

definition delete_allowed_address_pairs :: "port_store \<Rightarrow> string \<Rightarrow> port_store" where
  "delete_allowed_address_pairs st port_id =
     st\<lparr>ps_address_pairs := (ps_address_pairs st)(port_id := [])\<rparr>"

definition process_create_allowed_address_pairs ::
  "port_store \<Rightarrow> port_dict \<Rightarrow> string list \<Rightarrow> port_store" where
  "process_create_allowed_address_pairs st port pairs =
     st\<lparr>ps_address_pairs :=
          (ps_address_pairs st)(p_id port := ps_address_pairs st (p_id port) @ pairs)\<rparr>"

definition update_security_group_on_port ::
  "port_store \<Rightarrow> string \<Rightarrow> port_dict \<Rightarrow> port_store" where
  "update_security_group_on_port st port_id port =
     st\<lparr>ps_security_groups := (ps_security_groups st)(port_id := p_security_groups port)\<rparr>"

text \<open>\<^verbatim>\<open>_revert_neutron_port_update\<close>.\<close>

definition revert_neutron_port_update ::
  "port_store \<Rightarrow> string \<Rightarrow> port_dict \<Rightarrow> port_dict \<Rightarrow> bool \<Rightarrow> bool \<Rightarrow> port_store" where
  "revert_neutron_port_update st port_id original_port updated_port port_security
       sec_grp_updated =
    (let st = update_port st port_id original_port;
         st =
           (if port_security then
              (let orig_pair = p_allowed_address_pairs original_port;
                   updated_pair = p_allowed_address_pairs updated_port;
                   st = (if orig_pair \<noteq> updated_pair
                         then delete_allowed_address_pairs st port_id else st)
               in case orig_pair of
                    None \<Rightarrow> st
                  | Some pairs \<Rightarrow>
                      if pairs \<noteq> []
                      then process_create_allowed_address_pairs st original_port pairs
                      else st)
            else st)
     in if sec_grp_updated
        then update_security_group_on_port st port_id original_port
        else st)"

text \<open>
  A port whose update replaced its address pair and its security group, and the store as
  the failed update left it.
\<close>

definition port1_original :: port_dict where
  "port1_original =
     \<lparr>p_id = ''port-1'', p_name = ''old'', p_allowed_address_pairs = Some [''10.0.0.7''],
      p_security_groups = [''sg-1'']\<rparr>"

definition port1_updated :: port_dict where
  "port1_updated =
     \<lparr>p_id = ''port-1'', p_name = ''new'', p_allowed_address_pairs = Some [''10.0.0.8''],
      p_security_groups = [''sg-2'']\<rparr>"

definition port1_store :: port_store where
  "port1_store =
     \<lparr>ps_ports = [''port-1'' \<mapsto> port1_updated],
      ps_address_pairs = (\<lambda>_. [])(''port-1'' := [''10.0.0.8'']),
      ps_security_groups = (\<lambda>_. [])(''port-1'' := [''sg-2''])\<rparr>"

section \<open>Native DHCP\<close>

text \<open>
  The rows and backend objects that \<^verbatim>\<open>_enable_native_dhcp\<close> and
  \<^verbatim>\<open>_disable_native_dhcp\<close> touch: the service binding of each network (the DHCP port and
  the backend DHCP server it is bound to), the local ports, the mapping of local ports to
  backend switch and port, the DHCP servers and logical ports of the backend, the DHCP
  bindings of ports (port and server), and the error log.
\<close>

record service_binding =
  sb_port_id :: "string option"
  sb_nsx_service_id :: string

record neutron_port =
  np_network_id :: string
  np_device_owner :: string
  np_port_security :: bool

record dhcp_state =
  ds_service_bindings :: "string \<rightharpoonup> service_binding"
  ds_ports :: "string \<rightharpoonup> neutron_port"
  ds_port_mappings :: "string \<rightharpoonup> (string \<times> string)"
  ds_dhcp_servers :: "string set"
  ds_logical_ports :: "string set"
  ds_dhcp_bindings :: "(string \<times> string) set"
  ds_log :: "string list"

text \<open>
  What the two methods get from outside: whether \<^verbatim>\<open>self.nsxlib\<close> is set, the backend id
  of a network (\<^verbatim>\<open>_get_network_nsx_id\<close>), the ports already on the subnet, the ids that
  the store and the backend give to the port, server and logical port they create, and for
  every call that writes to the store or the backend the exception it raises, if any.
\<close>

record dhcp_env =
  de_nsxlib :: bool
  de_nsx_net_id :: "string \<Rightarrow> string option"
  de_existing_ports :: "string list"
  de_new_port_id :: string
  de_new_server_id :: string
  de_new_nsx_port_id :: string
  fail_create_port :: "error option"
  fail_preprocess_security :: "error option"
  fail_server_create :: "error option"
  fail_build_port_name :: "error option"
  fail_logical_port_create :: "error option"
  fail_add_port_mapping :: "error option"
  fail_add_service_binding :: "error option"
  fail_add_dhcp_binding :: "string \<Rightarrow> error option"
  fail_server_delete :: "string \<Rightarrow> error option"
  fail_delete_port :: "string \<Rightarrow> error option"
  fail_logical_port_delete :: "string \<Rightarrow> error option"
  fail_delete_service_binding :: "error option"
  fail_delete_dhcp_bindings :: "error option"

type_synonym dhcp_result = "dhcp_state \<times> (error + unit)"

text \<open>A call that raises and leaves the state, or succeeds with a new state.\<close>

definition attempt :: "error option \<Rightarrow> dhcp_state \<Rightarrow> dhcp_state \<Rightarrow> dhcp_result" where
  "attempt failure st st' = (case failure of Some e \<Rightarrow> (st, Inl e) | None \<Rightarrow> (st', Inr ()))"

text \<open>The next statement runs when the previous one did not raise.\<close>

definition bind_st :: "dhcp_result \<Rightarrow> (dhcp_state \<Rightarrow> dhcp_result) \<Rightarrow> dhcp_result" where
  "bind_st r f = (case snd r of Inl e \<Rightarrow> r | Inr _ \<Rightarrow> f (fst r))"

definition log_error :: "dhcp_state \<Rightarrow> string \<Rightarrow> dhcp_state" where
  "log_error st msg = st\<lparr>ds_log := ds_log st @ [msg]\<rparr>"

definition msg_no_backend_net :: string where
  "msg_no_backend_net =
     ''Unable to obtain backend network id for logical DHCP server for network %s''"

definition msg_server_create_failed :: string where
  "msg_server_create_failed = ''Unable to create logical DHCP server for network %s''"

definition msg_mapping_failed :: string where
  "msg_mapping_failed =
     ''Failed to create mapping for DHCP port %s,deleting port and logical DHCP server''"

definition msg_bindings_failed :: string where
  "msg_bindings_failed = ''Unable to create DHCP bindings for existing ports on subnet %s''"

definition msg_port_delete_failed :: string where
  "msg_port_delete_failed = ''Failed to delete DHCP port %(port)s for network %(network)s''"

definition msg_port_not_configured :: string where
  "msg_port_not_configured = ''DHCP port is not configured for network %s''"

definition msg_server_delete_failed :: string where
  "msg_server_delete_failed =
     ''Unable to delete logical DHCP server %(server)s for network %(network)s''"

definition msg_mapping_delete_failed :: string where
  "msg_mapping_delete_failed = ''Unable to delete DHCP server mapping for network %s''"

text \<open>
  Modelled from the spec: the calls on the local store (\<^verbatim>\<open>create_port\<close> and
  \<^verbatim>\<open>delete_port\<close> of the base plugin, the mapping and binding functions of
  \<^verbatim>\<open>vmware_nsx.db.db\<close>), on the backend client (DHCP server and logical port create and
  delete) and \<^verbatim>\<open>_add_dhcp_binding\<close>, each as the row or object it creates or
  deletes.
\<close>

definition neutron_create_port :: "dhcp_env \<Rightarrow> dhcp_state \<Rightarrow> string \<Rightarrow> dhcp_result" where
  "neutron_create_port env st network_id =
     attempt (fail_create_port env) st
       (st\<lparr>ds_ports := (ds_ports st)(de_new_port_id env \<mapsto>
            \<lparr>np_network_id = network_id, np_device_owner = DEVICE_OWNER_DHCP,
             np_port_security = False\<rparr>)\<rparr>)"

definition neutron_delete_port :: "dhcp_env \<Rightarrow> dhcp_state \<Rightarrow> string \<Rightarrow> dhcp_result" where
  "neutron_delete_port env st port_id =
     attempt (fail_delete_port env port_id) st (st\<lparr>ds_ports := (ds_ports st)(port_id := None)\<rparr>)"

definition dhcp_server_create :: "dhcp_env \<Rightarrow> dhcp_state \<Rightarrow> dhcp_result" where
  "dhcp_server_create env st =
     attempt (fail_server_create env) st
       (st\<lparr>ds_dhcp_servers := insert (de_new_server_id env) (ds_dhcp_servers st)\<rparr>)"

definition dhcp_server_delete :: "dhcp_env \<Rightarrow> dhcp_state \<Rightarrow> string \<Rightarrow> dhcp_result" where
  "dhcp_server_delete env st server_id =
     attempt (fail_server_delete env server_id) st
       (st\<lparr>ds_dhcp_servers := ds_dhcp_servers st - {server_id}\<rparr>)"

definition logical_port_create :: "dhcp_env \<Rightarrow> dhcp_state \<Rightarrow> dhcp_result" where
  "logical_port_create env st =
     attempt (fail_logical_port_create env) st
       (st\<lparr>ds_logical_ports := insert (de_new_nsx_port_id env) (ds_logical_ports st)\<rparr>)"

definition logical_port_delete :: "dhcp_env \<Rightarrow> dhcp_state \<Rightarrow> string \<Rightarrow> dhcp_result" where
  "logical_port_delete env st nsx_port_id =
     attempt (fail_logical_port_delete env nsx_port_id) st
       (st\<lparr>ds_logical_ports := ds_logical_ports st - {nsx_port_id}\<rparr>)"

definition add_neutron_nsx_port_mapping ::
  "dhcp_env \<Rightarrow> dhcp_state \<Rightarrow> string \<Rightarrow> string \<Rightarrow> string \<Rightarrow> dhcp_result" where
  "add_neutron_nsx_port_mapping env st neutron_id nsx_switch_id nsx_port_id =
     attempt (fail_add_port_mapping env) st
       (st\<lparr>ds_port_mappings := (ds_port_mappings st)(neutron_id \<mapsto> (nsx_switch_id, nsx_port_id))\<rparr>)"

definition add_neutron_nsx_service_binding ::
  "dhcp_env \<Rightarrow> dhcp_state \<Rightarrow> string \<Rightarrow> string \<Rightarrow> string \<Rightarrow> dhcp_result" where
  "add_neutron_nsx_service_binding env st network_id port_id nsx_service_id =
     attempt (fail_add_service_binding env) st
       (st\<lparr>ds_service_bindings := (ds_service_bindings st)(network_id \<mapsto>
            \<lparr>sb_port_id = Some port_id, sb_nsx_service_id = nsx_service_id\<rparr>)\<rparr>)"

definition delete_neutron_nsx_service_binding ::
  "dhcp_env \<Rightarrow> dhcp_state \<Rightarrow> string \<Rightarrow> dhcp_result" where
  "delete_neutron_nsx_service_binding env st network_id =
     attempt (fail_delete_service_binding env) st
       (st\<lparr>ds_service_bindings := (ds_service_bindings st)(network_id := None)\<rparr>)"

definition delete_neutron_nsx_dhcp_bindings_by_service_id ::
  "dhcp_env \<Rightarrow> dhcp_state \<Rightarrow> string \<Rightarrow> dhcp_result" where
  "delete_neutron_nsx_dhcp_bindings_by_service_id env st nsx_service_id =
     attempt (fail_delete_dhcp_bindings env) st
       (st\<lparr>ds_dhcp_bindings := {b \<in> ds_dhcp_bindings st. snd b \<noteq> nsx_service_id}\<rparr>)"

definition add_dhcp_binding :: "dhcp_env \<Rightarrow> dhcp_state \<Rightarrow> string \<Rightarrow> string \<Rightarrow> dhcp_result" where
  "add_dhcp_binding env st nsx_service_id port_id =
     attempt (fail_add_dhcp_binding env port_id) st
       (st\<lparr>ds_dhcp_bindings := insert (port_id, nsx_service_id) (ds_dhcp_bindings st)\<rparr>)"

text \<open>\<^verbatim>\<open>_cleanup_port\<close>.\<close>

definition cleanup_port ::
  "dhcp_env \<Rightarrow> dhcp_state \<Rightarrow> string \<Rightarrow> string option \<Rightarrow> dhcp_result" where
  "cleanup_port env st port_id nsx_port_id =
     bind_st (neutron_delete_port env st port_id)
       (\<lambda>st. case nsx_port_id of
                None \<Rightarrow> (st, Inr ())
              | Some n \<Rightarrow>
                  if n \<noteq> [] \<and> de_nsxlib env then logical_port_delete env st n
                  else (st, Inr ()))"

text \<open>
  \<^verbatim>\<open>with excutils.save_and_reraise_exception()\<close> around a handler: when the handler
  raises, its exception is the one that propagates; otherwise the saved one is raised again.
\<close>

definition save_and_reraise :: "error \<Rightarrow> dhcp_result \<Rightarrow> dhcp_result" where
  "save_and_reraise e handler =
     (case snd handler of Inl e' \<Rightarrow> handler | Inr _ \<Rightarrow> (fst handler, Inl e))"

text \<open>
  Lines 1231 to 1245 of \<^verbatim>\<open>_disable_native_dhcp\<close>: the DHCP port of the binding is
  cleaned up; a \<^verbatim>\<open>ResourceNotFound\<close> is logged and the method goes on.
\<close>

definition delete_dhcp_port ::
  "dhcp_env \<Rightarrow> dhcp_state \<Rightarrow> service_binding \<Rightarrow> dhcp_result" where
  "delete_dhcp_port env st dhcp_service =
     (case sb_port_id dhcp_service of
        None \<Rightarrow> (log_error st msg_port_not_configured, Inr ())
      | Some port_id \<Rightarrow>
          if port_id = [] then (log_error st msg_port_not_configured, Inr ())
          else
            (let nsx_port_id = map_option snd (ds_port_mappings st port_id);
                 r = cleanup_port env st port_id nsx_port_id
             in if snd r = Inl ResourceNotFound
                then (log_error (fst r) msg_port_delete_failed, Inr ())
                else r))"

text \<open>
  Lines 1247 to 1258: the backend DHCP server is deleted; a \<^verbatim>\<open>ManagerError\<close> is logged
  and raised again.
\<close>

definition delete_dhcp_server ::
  "dhcp_env \<Rightarrow> dhcp_state \<Rightarrow> service_binding \<Rightarrow> dhcp_result" where
  "delete_dhcp_server env st dhcp_service =
     (let r = dhcp_server_delete env st (sb_nsx_service_id dhcp_service)
      in case snd r of
           Inl e \<Rightarrow>
             if is_manager_error e
             then save_and_reraise e (log_error (fst r) msg_server_delete_failed, Inr ())
             else r
         | Inr _ \<Rightarrow> r)"

text \<open>
  Lines 1259 to 1269: the service binding of the network and the DHCP bindings under the
  server are deleted from the store; a \<^verbatim>\<open>DBError\<close> is logged and raised again.
\<close>

definition delete_dhcp_mappings ::
  "dhcp_env \<Rightarrow> dhcp_state \<Rightarrow> string \<Rightarrow> service_binding \<Rightarrow> dhcp_result" where
  "delete_dhcp_mappings env st network_id dhcp_service =
     (let r = bind_st (delete_neutron_nsx_service_binding env st network_id)
                (\<lambda>st. delete_neutron_nsx_dhcp_bindings_by_service_id env st
                        (sb_nsx_service_id dhcp_service))
      in case snd r of
           Inl e \<Rightarrow>
             if e = DBError
             then save_and_reraise e (log_error (fst r) msg_mapping_delete_failed, Inr ())
             else r
         | Inr _ \<Rightarrow> r)"

text \<open>\<^verbatim>\<open>_disable_native_dhcp\<close>.\<close>

definition disable_native_dhcp :: "dhcp_env \<Rightarrow> dhcp_state \<Rightarrow> string \<Rightarrow> dhcp_result" where
  "disable_native_dhcp env st network_id =
    (case ds_service_bindings st network_id of
       None \<Rightarrow> (st, Inr ())
     | Some dhcp_service \<Rightarrow>
         bind_st (delete_dhcp_port env st dhcp_service)
        (\<lambda>st. bind_st (delete_dhcp_server env st dhcp_service)
        (\<lambda>st. delete_dhcp_mappings env st network_id dhcp_service)))"

text \<open>
  The first \<^verbatim>\<open>try\<close> block of \<^verbatim>\<open>_enable_native_dhcp\<close>, lines 1175 to 1195: the backend
  DHCP server and its logical port are created; on a \<^verbatim>\<open>ManagerError\<close> the server, if it
  was created, and the local DHCP port are deleted and the error is raised again.
\<close>

definition create_backend_handler :: "dhcp_env \<Rightarrow> bool \<Rightarrow> dhcp_result \<Rightarrow> dhcp_result" where
  "create_backend_handler env dhcp_server r =
     (case snd r of
        Inr _ \<Rightarrow> r
      | Inl e \<Rightarrow>
          if is_manager_error e then
            save_and_reraise e
              (bind_st
                 (let st = log_error (fst r) msg_server_create_failed
                  in if dhcp_server then dhcp_server_delete env st (de_new_server_id env)
                     else (st, Inr ()))
                 (\<lambda>st. neutron_delete_port env st (de_new_port_id env)))
          else r)"

definition create_backend :: "dhcp_env \<Rightarrow> dhcp_state \<Rightarrow> dhcp_result" where
  "create_backend env st =
     (let r = dhcp_server_create env st
      in case snd r of
           Inl e \<Rightarrow> create_backend_handler env False r
         | Inr _ \<Rightarrow>
             create_backend_handler env True
               (bind_st (attempt (fail_build_port_name env) (fst r) (fst r))
                  (\<lambda>st. logical_port_create env st)))"

text \<open>
  The second \<^verbatim>\<open>try\<close> block, lines 1197 to 1212: the two mappings are stored; on a
  \<^verbatim>\<open>DBError\<close> or \<^verbatim>\<open>TimeoutError\<close> the backend server, the local port and the backend
  port are deleted and the error is raised again.
\<close>

definition store_mappings ::
  "dhcp_env \<Rightarrow> dhcp_state \<Rightarrow> string \<Rightarrow> string \<Rightarrow> dhcp_result" where
  "store_mappings env st network_id nsx_net_id =
     (let r = bind_st
                (add_neutron_nsx_port_mapping env st (de_new_port_id env) nsx_net_id
                   (de_new_nsx_port_id env))
                (\<lambda>st. add_neutron_nsx_service_binding env st network_id (de_new_port_id env)
                        (de_new_server_id env))
      in case snd r of
           Inr _ \<Rightarrow> r
         | Inl e \<Rightarrow>
             if is_db_or_timeout_error e then
               save_and_reraise e
                 (bind_st
                    (dhcp_server_delete env (log_error (fst r) msg_mapping_failed)
                       (de_new_server_id env))
                    (\<lambda>st. cleanup_port env st (de_new_port_id env)
                            (Some (de_new_nsx_port_id env))))
             else r)"

text \<open>
  The third \<^verbatim>\<open>try\<close> block, lines 1214 to 1220: a DHCP binding is added for each port
  that was on the subnet; the first exception ends the loop and is logged.
\<close>

fun add_dhcp_bindings :: "dhcp_env \<Rightarrow> dhcp_state \<Rightarrow> string \<Rightarrow> string list \<Rightarrow> dhcp_result" where
  "add_dhcp_bindings env st nsx_service_id [] = (st, Inr ())"
| "add_dhcp_bindings env st nsx_service_id (port_id # ports) =
     (case snd (add_dhcp_binding env st nsx_service_id port_id) of
        Inl e \<Rightarrow> add_dhcp_binding env st nsx_service_id port_id
      | Inr _ \<Rightarrow>
          add_dhcp_bindings env (fst (add_dhcp_binding env st nsx_service_id port_id))
            nsx_service_id ports)"

definition configure_existing_ports :: "dhcp_env \<Rightarrow> dhcp_state \<Rightarrow> dhcp_result" where
  "configure_existing_ports env st =
     (let r = add_dhcp_bindings env st (de_new_server_id env) (de_existing_ports env)
      in case snd r of
           Inl e \<Rightarrow> (log_error (fst r) msg_bindings_failed, Inr ())
         | Inr _ \<Rightarrow> r)"

text \<open>
  Lines 1146 to 1220 of \<^verbatim>\<open>_enable_native_dhcp\<close>: the local DHCP port is created and
  its security processed, then the three \<^verbatim>\<open>try\<close> blocks run.
\<close>

definition create_dhcp_service ::
  "dhcp_env \<Rightarrow> dhcp_state \<Rightarrow> string \<Rightarrow> string \<Rightarrow> dhcp_result" where
  "create_dhcp_service env st network_id nsx_net_id =
     bind_st (neutron_create_port env st network_id)
    (\<lambda>st. bind_st (attempt (fail_preprocess_security env) st st)
    (\<lambda>st. bind_st (create_backend env st)
    (\<lambda>st. bind_st (store_mappings env st network_id nsx_net_id)
    (\<lambda>st. configure_existing_ports env st))))"

text \<open>\<^verbatim>\<open>_enable_native_dhcp\<close>, for the network with the given id.\<close>

definition enable_native_dhcp :: "dhcp_env \<Rightarrow> dhcp_state \<Rightarrow> string \<Rightarrow> dhcp_result" where
  "enable_native_dhcp env st network_id =
     bind_st (disable_native_dhcp env st network_id)
       (\<lambda>st. case de_nsx_net_id env network_id of
                None \<Rightarrow> (log_error st msg_no_backend_net, Inl NsxPluginException)
              | Some nsx_net_id \<Rightarrow>
                  if nsx_net_id = []
                  then (log_error st msg_no_backend_net, Inl NsxPluginException)
                  else create_dhcp_service env st network_id nsx_net_id)"












text \<open>A store and backend with nothing in them, and an environment in which no call fails.\<close>

definition empty_dhcp_state :: dhcp_state where
  "empty_dhcp_state =
     \<lparr>ds_service_bindings = Map.empty, ds_ports = Map.empty, ds_port_mappings = Map.empty,
      ds_dhcp_servers = {}, ds_logical_ports = {}, ds_dhcp_bindings = {}, ds_log = []\<rparr>"

definition ok_dhcp_env :: dhcp_env where
  "ok_dhcp_env =
     \<lparr>de_nsxlib = True, de_nsx_net_id = (\<lambda>_. Some ''ls-1''), de_existing_ports = [''vm-port''],
      de_new_port_id = ''dhcp-port'', de_new_server_id = ''dhcp-server'',
      de_new_nsx_port_id = ''dhcp-lport'',
      fail_create_port = None, fail_preprocess_security = None, fail_server_create = None,
      fail_build_port_name = None, fail_logical_port_create = None,
      fail_add_port_mapping = None, fail_add_service_binding = None,
      fail_add_dhcp_binding = (\<lambda>_. None), fail_server_delete = (\<lambda>_. None),
      fail_delete_port = (\<lambda>_. None), fail_logical_port_delete = (\<lambda>_. None),
      fail_delete_service_binding = None, fail_delete_dhcp_bindings = None\<rparr>"

text \<open>A network whose DHCP was enabled before, and whose backend DHCP port is gone.\<close>

definition enabled_dhcp_state :: dhcp_state where
  "enabled_dhcp_state =
     \<lparr>ds_service_bindings =
        [''net-a'' \<mapsto> \<lparr>sb_port_id = Some ''old-port'', sb_nsx_service_id = ''old-server''\<rparr>],
      ds_ports = [''old-port'' \<mapsto> \<lparr>np_network_id = ''net-a'',
                    np_device_owner = ''network:dhcp'', np_port_security = False\<rparr>],
      ds_port_mappings = [''old-port'' \<mapsto> (''ls-1'', ''old-lport'')],
      ds_dhcp_servers = {''old-server''}, ds_logical_ports = {},
      ds_dhcp_bindings = {}, ds_log = []\<rparr>"

text \<open>
  The cleanup of the DHCP port of a binding goes through: there is no port to clean up,
  or \<^verbatim>\<open>_cleanup_port\<close> returns, or it raises \<^verbatim>\<open>ResourceNotFound\<close>.
\<close>

definition port_cleanup_tolerated :: "dhcp_env \<Rightarrow> dhcp_state \<Rightarrow> service_binding \<Rightarrow> bool" where
  "port_cleanup_tolerated env st dhcp_service =
     (case sb_port_id dhcp_service of
        None \<Rightarrow> True
      | Some port_id \<Rightarrow>
          port_id = [] \<or>
          snd (cleanup_port env st port_id (map_option snd (ds_port_mappings st port_id)))
            = Inr () \<or>
          snd (cleanup_port env st port_id (map_option snd (ds_port_mappings st port_id)))
            = Inl ResourceNotFound)"



definition failing_bindings_env :: dhcp_env where
  "failing_bindings_env =
     ok_dhcp_env\<lparr>fail_add_dhcp_binding := (\<lambda>_. Some (OtherException ''timeout''))\<rparr>"

definition stale_port_env :: dhcp_env where
  "stale_port_env =
     ok_dhcp_env\<lparr>de_existing_ports := [],
       fail_logical_port_delete :=
         (\<lambda>p. if p = ''old-lport'' then Some ResourceNotFound else None)\<rparr>"

text \<open>
  Scenario A of the specification: physical network \<^verbatim>\<open>pnet1\<close> with the range 100 to 102
  and tag 100 bound.
\<close>

definition pnet1_store :: "network_binding list" where
  "pnet1_store =
     [\<lparr>nb_network_id = ''net-a'', nb_binding_type = VLAN, nb_phy_uuid = Some ''pnet1'',
       nb_vlan_id = Some 100\<rparr>]"

definition pnet1_vlans :: "string \<rightharpoonup> (int \<times> int) list" where
  "pnet1_vlans = [''pnet1'' \<mapsto> [(100, 102)]]"

definition vlan_request :: network_data where
  "vlan_request =
     \<lparr>nd_network_type = Attr VLAN, nd_physical_network = Attr ''pnet1'',
      nd_segmentation_id = AttrNone, nd_qos_policy_id = AttrNone\<rparr>"

text \<open>A backend whose only transport zone is the VLAN zone \<^verbatim>\<open>pnet1\<close>, in standard mode.\<close>

definition pnet1_env :: provider_env where
  "pnet1_env =
     \<lparr>pe_list_of_set = sorted_list_of_set, pe_session = pnet1_store,
      pe_network_vlans = pnet1_vlans,
      pe_get_transport_type = (\<lambda>tz. if tz = ''pnet1'' then Some TRANSPORT_TYPE_VLAN else None),
      pe_get_host_switch_mode =
        (\<lambda>tz. if tz = ''pnet1'' then Some HOST_SWITCH_MODE_STANDARD else None),
      pe_nsx_net_tz_id = (\<lambda>_. None), pe_allow_ens_networks = False\<rparr>"

section \<open>Truthiness of the Python connectives\<close>

lemma truthy_py_and [simp]: "truthy (py_and a b) = (truthy a \<and> truthy b)"
  by (simp add: py_and_def)

lemma truthy_py_or [simp]: "truthy (py_or a b) = (truthy a \<or> truthy b)"
  by (simp add: py_or_def)

lemma truthy_py_not [simp]: "truthy (py_not a) = (\<not> truthy a)"
  by (simp add: py_not_def)

lemma py_eq_refl [simp]: "py_eq a a"
  by (cases a) simp_all

lemma py_eq_sym: "py_eq a b = py_eq b a"
  by (cases a; cases b) auto

lemma truthy_py_ne [simp]: "truthy (py_ne a b) = (\<not> py_eq a b)"
  by (simp add: py_ne_def)

lemmas gw_actions_simps = get_update_router_gw_actions_def Let_def

section \<open>Properties of the gateway update actions\<close>

text \<open>
  C9: whatever the eight arguments are, \<open>add_service_router\<close> and \<open>remove_service_router\<close>
  are never both true, and when a load balancer or a firewall exists on the router neither
  of them is true.
\<close>

theorem service_router_flags_exclusive:
  "\<not> (truthy (add_service_router
          (get_update_router_gw_actions org_tier0 orgaddr org_snat new_tier0 newaddr new_snat lb fw))
      \<and> truthy (remove_service_router
          (get_update_router_gw_actions org_tier0 orgaddr org_snat new_tier0 newaddr new_snat lb fw)))
   \<and> (truthy lb \<or> truthy fw \<longrightarrow>
        \<not> truthy (add_service_router
          (get_update_router_gw_actions org_tier0 orgaddr org_snat new_tier0 newaddr new_snat lb fw))
      \<and> \<not> truthy (remove_service_router
          (get_update_router_gw_actions org_tier0 orgaddr org_snat new_tier0 newaddr new_snat lb fw)))"
  by (auto simp: gw_actions_simps)

theorem service_router_flags_exclusive_witness:
  "truthy (PyBool True) \<and>
   \<not> truthy (add_service_router
        (get_update_router_gw_actions PyNone PyNone (PyBool True)
           (PyStr ''T0-A'') (PyStr ''10.0.0.5'') (PyBool True) (PyBool True) (PyBool False)))
   \<and> \<not> truthy (remove_service_router
        (get_update_router_gw_actions PyNone PyNone (PyBool True)
           (PyStr ''T0-A'') (PyStr ''10.0.0.5'') (PyBool True) (PyBool True) (PyBool False)))"
  using service_router_flags_exclusive [of PyNone PyNone "PyBool True"
      "PyStr ''T0-A''" "PyStr ''10.0.0.5''" "PyBool True" "PyBool True" "PyBool False"]
  by simp

text \<open>
  C2, as stated: a transition from a state to itself gives an action set with every flag
  false. It fails for a router without gateway and SNAT enabled, where
  \<open>advertise_route_nat_flag\<close> is true.
\<close>

theorem identity_transition_counterexample:
  "\<not> every_flag_false
       (get_update_router_gw_actions PyNone PyNone (PyBool True)
          PyNone PyNone (PyBool True) (PyBool False) (PyBool False))"
  by (simp add: gw_actions_simps every_flag_false_def)

text \<open>
  C2, amended: for a transition from a state to itself, the add and remove flags of the
  router link port, the SNAT rules, the No-DNAT rules and the service router are false,
  and so is \<open>revocate_bgp_announce\<close>; of the two advertise flags exactly one is true,
  \<open>advertise_route_nat_flag\<close> when SNAT is enabled and \<open>advertise_route_connected_flag\<close>
  when it is not.
\<close>

theorem identity_transition_actions:
  "\<not> truthy (remove_router_link_port (get_update_router_gw_actions t a s t a s lb fw)) \<and>
   \<not> truthy (remove_snat_rules (get_update_router_gw_actions t a s t a s lb fw)) \<and>
   \<not> truthy (remove_no_dnat_rules (get_update_router_gw_actions t a s t a s lb fw)) \<and>
   \<not> truthy (revocate_bgp_announce (get_update_router_gw_actions t a s t a s lb fw)) \<and>
   \<not> truthy (add_router_link_port (get_update_router_gw_actions t a s t a s lb fw)) \<and>
   \<not> truthy (add_snat_rules (get_update_router_gw_actions t a s t a s lb fw)) \<and>
   \<not> truthy (add_no_dnat_rules (get_update_router_gw_actions t a s t a s lb fw)) \<and>
   \<not> truthy (add_service_router (get_update_router_gw_actions t a s t a s lb fw)) \<and>
   \<not> truthy (remove_service_router (get_update_router_gw_actions t a s t a s lb fw)) \<and>
   advertise_route_nat_flag (get_update_router_gw_actions t a s t a s lb fw)
     = PyBool (truthy s) \<and>
   advertise_route_connected_flag (get_update_router_gw_actions t a s t a s lb fw)
     = PyBool (\<not> truthy s)"
  by (auto simp: gw_actions_simps)

theorem identity_transition_actions_witness:
  "\<not> truthy (remove_snat_rules
       (get_update_router_gw_actions (PyStr ''T0-A'') (PyStr ''10.0.0.5'') (PyBool True)
          (PyStr ''T0-A'') (PyStr ''10.0.0.5'') (PyBool True) (PyBool False) (PyBool False))) \<and>
   advertise_route_nat_flag
       (get_update_router_gw_actions (PyStr ''T0-A'') (PyStr ''10.0.0.5'') (PyBool True)
          (PyStr ''T0-A'') (PyStr ''10.0.0.5'') (PyBool True) (PyBool False) (PyBool False))
     = PyBool True"
  using identity_transition_actions [of "PyStr ''T0-A''" "PyStr ''10.0.0.5''" "PyBool True"
      "PyBool False" "PyBool False"]
  by simp

text \<open>
  The flag the amended C2 leaves out: with SNAT disabled and a tier0 router set,
  \<open>bgp_announce\<close> is true although nothing changes, where the comment in the source
  announces only when the tier0 link changes or SNAT goes from enabled to disabled.
\<close>

lemma bgp_announce_on_identity:
  "bgp_announce
     (get_update_router_gw_actions (PyStr ''T0-A'') PyNone (PyBool False)
        (PyStr ''T0-A'') PyNone (PyBool False) (PyBool False) (PyBool False))
   = PyBool True"
  by (simp add: gw_actions_simps py_and_def py_or_def py_not_def py_ne_def)

text \<open>
  C4, as stated: the Remove flag of the run from old to new equals the Add flag of the run
  from new to old, for every pair. It fails for the service router when a gateway address
  is removed from a router whose SNAT is disabled: the forward run removes the service
  router, the backward run does not add one.
\<close>

theorem inverse_actions_counterexample:
  "truthy (remove_service_router
      (get_update_router_gw_actions PyNone (PyStr ''10.0.0.5'') (PyBool False)
         PyNone PyNone (PyBool False) (PyBool False) (PyBool False)))
   \<noteq> truthy (add_service_router
      (get_update_router_gw_actions PyNone PyNone (PyBool False)
         PyNone (PyStr ''10.0.0.5'') (PyBool False) (PyBool False) (PyBool False)))"
  by (simp add: gw_actions_simps)

text \<open>
  C4, amended: for the router link port, the SNAT rules and the No-DNAT rules, the Add flag
  of the run from old to new equals the Remove flag of the run from new to old, and the
  Remove flag equals the Add flag. For the service router, with the same load balancer and
  firewall flags in both runs, the forward run removes it exactly when the backward run
  adds it or the gateway address goes from set to unset with no load balancer and no
  firewall.
\<close>

theorem inverse_actions:
  "truthy (add_router_link_port (get_update_router_gw_actions ot oa os nt na ns lb fw))
     = truthy (remove_router_link_port (get_update_router_gw_actions nt na ns ot oa os lb fw)) \<and>
   truthy (remove_router_link_port (get_update_router_gw_actions ot oa os nt na ns lb fw))
     = truthy (add_router_link_port (get_update_router_gw_actions nt na ns ot oa os lb fw)) \<and>
   truthy (add_snat_rules (get_update_router_gw_actions ot oa os nt na ns lb fw))
     = truthy (remove_snat_rules (get_update_router_gw_actions nt na ns ot oa os lb fw)) \<and>
   truthy (remove_snat_rules (get_update_router_gw_actions ot oa os nt na ns lb fw))
     = truthy (add_snat_rules (get_update_router_gw_actions nt na ns ot oa os lb fw)) \<and>
   truthy (add_no_dnat_rules (get_update_router_gw_actions ot oa os nt na ns lb fw))
     = truthy (remove_no_dnat_rules (get_update_router_gw_actions nt na ns ot oa os lb fw)) \<and>
   truthy (remove_no_dnat_rules (get_update_router_gw_actions ot oa os nt na ns lb fw))
     = truthy (add_no_dnat_rules (get_update_router_gw_actions nt na ns ot oa os lb fw)) \<and>
   truthy (remove_service_router (get_update_router_gw_actions ot oa os nt na ns lb fw))
     = (truthy (add_service_router (get_update_router_gw_actions nt na ns ot oa os lb fw))
        \<or> (truthy oa \<and> \<not> truthy na \<and> \<not> (truthy fw \<or> truthy lb)))"
  by (auto simp: gw_actions_simps py_eq_sym)

theorem inverse_actions_witness:
  "truthy (add_snat_rules
      (get_update_router_gw_actions (PyStr ''T0-A'') (PyStr ''10.0.0.5'') (PyBool True)
         (PyStr ''T0-B'') (PyStr ''10.0.0.6'') (PyBool True) (PyBool False) (PyBool False)))
   \<and> truthy (remove_snat_rules
      (get_update_router_gw_actions (PyStr ''T0-B'') (PyStr ''10.0.0.6'') (PyBool True)
         (PyStr ''T0-A'') (PyStr ''10.0.0.5'') (PyBool True) (PyBool False) (PyBool False)))"
  using inverse_actions [of "PyStr ''T0-A''" "PyStr ''10.0.0.5''" "PyBool True"
      "PyStr ''T0-B''" "PyStr ''10.0.0.6''" "PyBool True" "PyBool False" "PyBool False"]
  by (simp add: gw_actions_simps)

text \<open>
  The pair the amended C4 leaves out: when SNAT goes from disabled to enabled on the same
  tier0 router, the forward run revokes the BGP announcement, and the backward run, in
  which SNAT goes from enabled to disabled, does not announce.
\<close>

lemma bgp_pair_not_inverse:
  "truthy (revocate_bgp_announce
      (get_update_router_gw_actions (PyStr ''T0-A'') PyNone (PyBool False)
         (PyStr ''T0-A'') PyNone (PyBool True) (PyBool False) (PyBool False)))
   \<and> \<not> truthy (bgp_announce
      (get_update_router_gw_actions (PyStr ''T0-A'') PyNone (PyBool True)
         (PyStr ''T0-A'') PyNone (PyBool False) (PyBool False) (PyBool False)))"
  by (simp add: gw_actions_simps)

section \<open>Properties of the segment allocator\<close>

lemma finite_range_ids: "finite (range_ids rs)"
  by (induction rs) auto

lemma finite_candidate_vlan_ids: "finite (candidate_vlan_ids network_vlans p)"
  by (simp add: candidate_vlan_ids_def Let_def finite_range_ids)

lemma range_ids_iff:
  "(v \<in> range_ids rs) = list_ex (\<lambda>(vlan_min, vlan_max). vlan_min \<le> v \<and> v \<le> vlan_max) rs"
  by (induction rs) auto

lemma candidate_vlan_ids_bounds:
  "(v \<in> candidate_vlan_ids network_vlans p)
     = spec_tag_in_bounds (vlan_ranges_of network_vlans p) v"
  by (simp add: candidate_vlan_ids_def spec_tag_in_bounds_def Let_def range_ids_iff)

lemma set_used_ids_in_range:
  "set [v. Some v \<leftarrow> xs, v \<in> A] = {v. Some v \<in> set xs \<and> v \<in> A}"
  by (induction xs) (auto split: option.splits)

lemma free_ids_eq:
  "py_set_xor (candidate_vlan_ids nv p)
      (set [v. Some v \<leftarrow> map nb_vlan_id (get_network_bindings_by_phy_uuid s p),
               v \<in> candidate_vlan_ids nv p])
   = {v \<in> candidate_vlan_ids nv p. Some v \<notin> used_vlan_ids s p}"
  unfolding set_used_ids_in_range by (auto simp: py_set_xor_def used_vlan_ids_def)

lemma generate_segment_id_free:
  "generate_segment_id list_of_set s nv p nd =
     (case list_of_set {v \<in> candidate_vlan_ids nv p. Some v \<notin> used_vlan_ids s p} of
        [] \<Rightarrow> Inl NoNetworkAvailable
      | first # _ \<Rightarrow> Inr (nd\<lparr>nd_segmentation_id := Attr first\<rparr>, first))"
  unfolding generate_segment_id_def Let_def free_ids_eq ..

lemma enumerates_sets_sorted: "enumerates_sets sorted_list_of_set"
  by (simp add: enumerates_sets_def)

text \<open>
  C3: whatever order \<^verbatim>\<open>list\<close> gives the set, \<open>generate_segment_id\<close> either returns a tag
  that lies inside the ranges configured for the physical network (inside the legal range
  when none is configured) and is not bound to that physical network in the binding store,
  writing it into the request, or raises \<open>NoNetworkAvailable\<close>; and it raises exactly
  when no candidate tag is free.
\<close>

theorem generate_segment_id_correct:
  assumes "enumerates_sets list_of_set"
  shows "((\<exists>tag. generate_segment_id list_of_set s nv p nd
                   = Inr (nd\<lparr>nd_segmentation_id := Attr tag\<rparr>, tag)
               \<and> spec_tag_in_bounds (vlan_ranges_of nv p) tag
               \<and> Some tag \<notin> used_vlan_ids s p)
          \<or> generate_segment_id list_of_set s nv p nd = Inl NoNetworkAvailable)
       \<and> ((generate_segment_id list_of_set s nv p nd = Inl NoNetworkAvailable)
          = ({v. spec_tag_in_bounds (vlan_ranges_of nv p) v \<and> Some v \<notin> used_vlan_ids s p}
             = {}))"
proof -
  let ?free = "{v \<in> candidate_vlan_ids nv p. Some v \<notin> used_vlan_ids s p}"
  have fr: "{v. spec_tag_in_bounds (vlan_ranges_of nv p) v \<and> Some v \<notin> used_vlan_ids s p}
              = ?free"
    by (simp add: candidate_vlan_ids_bounds)
  have fin: "finite ?free"
    using finite_candidate_vlan_ids by simp
  have en: "set (list_of_set ?free) = ?free"
    using assms fin unfolding enumerates_sets_def by blast
  show ?thesis
  proof (cases "list_of_set ?free")
    case Nil
    then have "?free = {}" using en by simp
    then show ?thesis unfolding fr using Nil by (simp add: generate_segment_id_free)
  next
    case (Cons a as)
    then have a: "a \<in> ?free" using en by (metis list.set_intros(1))
    then have "spec_tag_in_bounds (vlan_ranges_of nv p) a \<and> Some a \<notin> used_vlan_ids s p"
      by (simp add: candidate_vlan_ids_bounds)
    then show ?thesis unfolding fr using Cons a by (auto simp add: generate_segment_id_free)
  qed
qed

lemma generate_segment_id_pnet1:
  "generate_segment_id sorted_list_of_set pnet1_store pnet1_vlans (Some ''pnet1'') vlan_request
     = Inr (vlan_request\<lparr>nd_segmentation_id := Attr 101\<rparr>, 101)"
  by code_simp

theorem generate_segment_id_correct_witness:
  "enumerates_sets sorted_list_of_set \<and>
   generate_segment_id sorted_list_of_set pnet1_store pnet1_vlans (Some ''pnet1'') vlan_request
     = Inr (vlan_request\<lparr>nd_segmentation_id := Attr 101\<rparr>, 101) \<and>
   spec_tag_in_bounds (vlan_ranges_of pnet1_vlans (Some ''pnet1'')) 101 \<and>
   Some 101 \<notin> used_vlan_ids pnet1_store (Some ''pnet1'')"
  using generate_segment_id_correct [OF enumerates_sets_sorted,
      of pnet1_store pnet1_vlans "Some ''pnet1''" vlan_request]
    generate_segment_id_pnet1 enumerates_sets_sorted
  by auto

section \<open>Properties of provider network validation\<close>

lemma generate_segment_id_tag:
  assumes "enumerates_sets list_of_set"
    and "generate_segment_id list_of_set s nv p nd = Inr (nd', tag)"
  shows "tag \<in> candidate_vlan_ids nv p \<and> Some tag \<notin> used_vlan_ids s p"
proof -
  let ?free = "{v \<in> candidate_vlan_ids nv p. Some v \<notin> used_vlan_ids s p}"
  have "finite ?free" using finite_candidate_vlan_ids by simp
  then have en: "set (list_of_set ?free) = ?free"
    using assms(1) unfolding enumerates_sets_def by blast
  from assms(2) obtain rest where "list_of_set ?free = tag # rest"
    by (auto simp: generate_segment_id_free split: list.splits)
  then have "tag \<in> ?free" using en by (metis list.set_intros(1))
  then show ?thesis by simp
qed

lemma generate_segment_id_request:
  "generate_segment_id list_of_set s nv p nd = Inr (nd', tag)
     \<Longrightarrow> nd' = nd\<lparr>nd_segmentation_id := Attr tag\<rparr>"
  by (auto simp: generate_segment_id_free split: list.splits)

lemma generate_segment_id_error:
  "generate_segment_id list_of_set s nv p nd = Inl e \<Longrightarrow> e = NoNetworkAvailable"
  by (auto simp: generate_segment_id_free split: list.splits)

lemma generate_segment_id_ignores_segid:
  "generate_segment_id list_of_set s nv p (nd\<lparr>nd_segmentation_id := a\<rparr>)
     = generate_segment_id list_of_set s nv p (nd\<lparr>nd_segmentation_id := b\<rparr>)"
  by (simp add: generate_segment_id_free split: list.splits)


lemma provider_ens_checks_result:
  "provider_ens_checks env nd res = Inr r \<Longrightarrow> r = res"
  by (simp add: provider_ens_checks_def split: if_splits sum.splits)

lemma provider_ens_checks_not_range:
  "provider_ens_checks env nd res \<noteq> Inl (InvalidInput msg_segid_out_of_range)"
  by (simp add: provider_ens_checks_def assert_on_ens_with_qos_def msg_ens_qos_def
      msg_segid_out_of_range_def split: if_splits sum.splits)

lemma provider_tz_lookup_pending:
  "l_err_msg l = Some m \<Longrightarrow> provider_tz_lookup env ipn nt l p = Inr (Some m, l_switch_mode l)"
  by (simp add: provider_tz_lookup_def split: option.splits)

lemma provider_tz_lookup_msg:
  "l_err_msg l = None \<Longrightarrow> provider_tz_lookup env ipn nt l p = Inr (Some m, sm)
     \<Longrightarrow> m = msg_tz_not_found \<or> m = msg_tz_type_required"
  by (simp add: provider_tz_lookup_def Let_def split: option.splits if_splits)

lemma provider_tz_checks_result:
  assumes "provider_tz_checks env dflt_overlay ipn nt l = Inr r"
  shows "r_physical_net r = (if l_physical_net l = None then dflt_overlay else l_physical_net l)
     \<and> r_vlan_id r = l_vlan_id l"
proof -
  let ?p = "if l_physical_net l = None then dflt_overlay else l_physical_net l"
  from assms obtain sm where
    "provider_ens_checks env (l_network_data l)
        \<lparr>r_is_provider_net = ipn, r_net_type = nt, r_physical_net = ?p,
         r_vlan_id = l_vlan_id l, r_switch_mode = sm\<rparr> = Inr r"
    unfolding provider_tz_checks_def Let_def
    by (cases "provider_tz_lookup env ipn nt l ?p") (auto split: option.splits)
  then have "r = \<lparr>r_is_provider_net = ipn, r_net_type = nt, r_physical_net = ?p,
         r_vlan_id = l_vlan_id l, r_switch_mode = sm\<rparr>"
    by (rule provider_ens_checks_result)
  then show ?thesis by simp
qed

lemma provider_tz_checks_err_msg:
  "l_err_msg l = Some m \<Longrightarrow> provider_tz_checks env dflt_overlay ipn nt l = Inl (InvalidInput m)"
  by (simp add: provider_tz_checks_def Let_def provider_tz_lookup_pending)

lemma provider_tz_checks_not_range:
  assumes "l_err_msg l = None"
  shows "provider_tz_checks env dflt_overlay ipn nt l \<noteq> Inl (InvalidInput msg_segid_out_of_range)"
proof -
  let ?p = "if l_physical_net l = None then dflt_overlay else l_physical_net l"
  show ?thesis
  proof (cases "provider_tz_lookup env ipn nt l ?p")
    case (Inl e)
    then have "e = ResourceNotFound"
      by (simp add: provider_tz_lookup_def Let_def split: option.splits if_splits)
    then show ?thesis using Inl by (simp add: provider_tz_checks_def Let_def)
  next
    case (Inr b)
    obtain em sm where b: "b = (em, sm)" by (cases b)
    show ?thesis
    proof (cases em)
      case None
      then show ?thesis using Inr b
        by (simp add: provider_tz_checks_def Let_def provider_ens_checks_not_range)
    next
      case (Some m)
      then have "m = msg_tz_not_found \<or> m = msg_tz_type_required"
        using provider_tz_lookup_msg [OF assms] Inr b by blast
      then show ?thesis using Inr b Some
        by (auto simp: provider_tz_checks_def Let_def msg_tz_not_found_def
            msg_tz_type_required_def msg_segid_out_of_range_def)
    qed
  qed
qed


lemma attr_value_physical:
  "(if attr_value (nd_physical_network nd) = None then dv else attr_value (nd_physical_network nd))
     = effective_physical_net nd dv"
  by (simp add: attr_value_def effective_physical_net_def split: attr.splits)

lemma provider_type_checks_vlan:
  assumes "nd_network_type nd = Attr VLAN"
  shows "provider_type_checks env nd dv False ipn pn vid =
    (if \<not> truthy vid then
       (case generate_segment_id (pe_list_of_set env) (pe_session env)
               (pe_network_vlans env) (if pn = None then dv else pn) nd of
          Inl e \<Rightarrow> Inl e
        | Inr (net_data', tag) \<Rightarrow>
            Inr \<lparr>l_err_msg = None, l_physical_net = (if pn = None then dv else pn),
                 l_vlan_id = PyInt tag, l_tz_type = TRANSPORT_TYPE_VLAN,
                 l_switch_mode = HOST_SWITCH_MODE_STANDARD, l_network_data = net_data'\<rparr>)
     else if \<not> is_valid_vlan_tag vid then
       Inr \<lparr>l_err_msg = Some msg_segid_out_of_range,
            l_physical_net = (if pn = None then dv else pn),
            l_vlan_id = vid, l_tz_type = TRANSPORT_TYPE_VLAN,
            l_switch_mode = HOST_SWITCH_MODE_STANDARD, l_network_data = nd\<rparr>
     else if bindings_by_vlanid_and_physical_net (pe_session env) vid
               (if pn = None then dv else pn) \<noteq> []
       then Inl (VlanIdInUse vid (if pn = None then dv else pn))
     else Inr \<lparr>l_err_msg = None, l_physical_net = (if pn = None then dv else pn),
               l_vlan_id = vid, l_tz_type = TRANSPORT_TYPE_VLAN,
               l_switch_mode = HOST_SWITCH_MODE_STANDARD, l_network_data = nd\<rparr>)"
  unfolding provider_type_checks_def Let_def
  by (simp add: assms split: sum.splits)

text \<open>
  The planner on a request of type vlan, outside transparent-VLAN mode, by the three cases
  of its segmentation id.
\<close>

lemma validate_provider_create_vlan:
  assumes "nd_network_type nd = Attr VLAN"
  shows "validate_provider_create env nd dv dov False =
    (if \<not> truthy (requested_vlan_id nd) then
       (case generate_segment_id (pe_list_of_set env) (pe_session env)
               (pe_network_vlans env) (effective_physical_net nd dv) nd of
          Inl e \<Rightarrow> (nd, Inl e)
        | Inr (net_data', tag) \<Rightarrow>
            (net_data', provider_tz_checks env dov True (Some VLAN)
               \<lparr>l_err_msg = None, l_physical_net = effective_physical_net nd dv,
                l_vlan_id = PyInt tag, l_tz_type = TRANSPORT_TYPE_VLAN,
                l_switch_mode = HOST_SWITCH_MODE_STANDARD, l_network_data = net_data'\<rparr>))
     else if \<not> is_valid_vlan_tag (requested_vlan_id nd) then
       (nd, Inl (InvalidInput msg_segid_out_of_range))
     else if bindings_by_vlanid_and_physical_net (pe_session env) (requested_vlan_id nd)
               (effective_physical_net nd dv) \<noteq> []
       then (nd, Inl (VlanIdInUse (requested_vlan_id nd) (effective_physical_net nd dv)))
     else (nd, provider_tz_checks env dov True (Some VLAN)
               \<lparr>l_err_msg = None, l_physical_net = effective_physical_net nd dv,
                l_vlan_id = requested_vlan_id nd, l_tz_type = TRANSPORT_TYPE_VLAN,
                l_switch_mode = HOST_SWITCH_MODE_STANDARD, l_network_data = nd\<rparr>))"
proof -
  have nt: "attr_value (nd_network_type nd) = Some VLAN"
    by (simp add: attr_value_def assms)
  have rq: "(case nd_segmentation_id nd of Attr n \<Rightarrow> PyInt n | _ \<Rightarrow> PyNone)
              = requested_vlan_id nd"
    by (simp add: requested_vlan_id_def)
  show ?thesis
    unfolding validate_provider_create_def Let_def rq nt
      provider_type_checks_vlan [OF assms] attr_value_physical
    by (simp add: assms provider_tz_checks_err_msg split: sum.splits)
qed

text \<open>
  C7, as stated: an explicit segmentation id outside the legal range is rejected. It fails
  for the id 0, which is outside the range: the request is accepted with an allocated tag.
\<close>

theorem vlan_request_validation_counterexample:
  "\<not> (MIN_VLAN_TAG \<le> 0 \<and> 0 \<le> MAX_VLAN_TAG) \<and>
   validate_provider_create pnet1_env (vlan_request\<lparr>nd_segmentation_id := Attr 0\<rparr>)
       (Some ''pnet1'') None False
     = (vlan_request\<lparr>nd_segmentation_id := Attr 101\<rparr>,
        Inr \<lparr>r_is_provider_net = True, r_net_type = Some VLAN,
             r_physical_net = Some ''pnet1'', r_vlan_id = PyInt 101,
             r_switch_mode = HOST_SWITCH_MODE_STANDARD\<rparr>)"
  by code_simp

text \<open>
  C7, amended: for a request of type vlan, outside transparent-VLAN mode, checked against
  its physical network or, when it has none, the default VLAN transport zone: an explicit
  segmentation id other than 0 that lies outside the legal range is rejected with
  \<open>InvalidInput\<close>; an id inside the range for which the binding store has a binding on that
  physical network fails with \<open>VlanIdInUse\<close>; when the id is absent or 0 the segment
  allocator is invoked, its failure is the planner's failure and its tag is the tag
  returned; and the physical network returned is the one checked against, or the default
  overlay transport zone when there is none.
\<close>

theorem vlan_request_validation:
  assumes "nd_network_type nd = Attr VLAN" and "\<not> transparent_vlan"
  shows "(nd_segmentation_id nd = Attr n \<and> n \<noteq> 0 \<and> \<not> (MIN_VLAN_TAG \<le> n \<and> n \<le> MAX_VLAN_TAG)
            \<longrightarrow> validate_provider_create env nd dv dov transparent_vlan
                  = (nd, Inl (InvalidInput msg_segid_out_of_range)))
     \<and> (nd_segmentation_id nd = Attr n \<and> MIN_VLAN_TAG \<le> n \<and> n \<le> MAX_VLAN_TAG
          \<and> get_network_bindings_by_vlanid_and_physical_net (pe_session env) n
               (effective_physical_net nd dv) \<noteq> []
            \<longrightarrow> validate_provider_create env nd dv dov transparent_vlan
                  = (nd, Inl (VlanIdInUse (PyInt n) (effective_physical_net nd dv))))
     \<and> (\<not> is_attr_set (nd_segmentation_id nd) \<or> nd_segmentation_id nd = Attr 0
            \<longrightarrow> (case generate_segment_id (pe_list_of_set env) (pe_session env)
                        (pe_network_vlans env) (effective_physical_net nd dv) nd of
                   Inl e \<Rightarrow> validate_provider_create env nd dv dov transparent_vlan = (nd, Inl e)
                 | Inr (nd', tag) \<Rightarrow>
                     fst (validate_provider_create env nd dv dov transparent_vlan) = nd'
                     \<and> (snd (validate_provider_create env nd dv dov transparent_vlan) = Inr r
                          \<longrightarrow> r_vlan_id r = PyInt tag)))
     \<and> (snd (validate_provider_create env nd dv dov transparent_vlan) = Inr r
            \<longrightarrow> r_physical_net r =
                  (if effective_physical_net nd dv = None then dov
                   else effective_physical_net nd dv))"
proof -
  have tv: "transparent_vlan = False" using assms(2) by simp
  note vpc = validate_provider_create_vlan [OF assms(1)]
  have p1: "validate_provider_create env nd dv dov False
            = (nd, Inl (InvalidInput msg_segid_out_of_range))"
    if "nd_segmentation_id nd = Attr n" "n \<noteq> 0" "\<not> (MIN_VLAN_TAG \<le> n \<and> n \<le> MAX_VLAN_TAG)"
    using that by (simp add: vpc requested_vlan_id_def)
  have p2: "validate_provider_create env nd dv dov False
            = (nd, Inl (VlanIdInUse (PyInt n) (effective_physical_net nd dv)))"
    if "nd_segmentation_id nd = Attr n" "MIN_VLAN_TAG \<le> n" "n \<le> MAX_VLAN_TAG"
       "get_network_bindings_by_vlanid_and_physical_net (pe_session env) n
               (effective_physical_net nd dv) \<noteq> []"
    using that
    by (simp add: vpc requested_vlan_id_def bindings_by_vlanid_and_physical_net_def
        MIN_VLAN_TAG_def)
  have p3: "(case generate_segment_id (pe_list_of_set env) (pe_session env)
                        (pe_network_vlans env) (effective_physical_net nd dv) nd of
                   Inl e \<Rightarrow> validate_provider_create env nd dv dov False = (nd, Inl e)
                 | Inr (nd', tag) \<Rightarrow>
                     fst (validate_provider_create env nd dv dov False) = nd'
                     \<and> (snd (validate_provider_create env nd dv dov False) = Inr r
                          \<longrightarrow> r_vlan_id r = PyInt tag))"
    if "\<not> is_attr_set (nd_segmentation_id nd) \<or> nd_segmentation_id nd = Attr 0"
  proof -
    have "\<not> truthy (requested_vlan_id nd)"
      using that by (auto simp: requested_vlan_id_def split: attr.splits)
    then show ?thesis
      by (auto simp: vpc split: sum.splits dest: provider_tz_checks_result)
  qed
  have p4: "r_physical_net r =
                  (if effective_physical_net nd dv = None then dov
                   else effective_physical_net nd dv)"
    if "snd (validate_provider_create env nd dv dov False) = Inr r"
    using that
    by (auto simp: vpc split: sum.splits if_splits dest!: provider_tz_checks_result)
  show ?thesis unfolding tv using p1 p2 p3 p4 by blast
qed

theorem vlan_request_validation_witness:
  "validate_provider_create pnet1_env (vlan_request\<lparr>nd_segmentation_id := Attr 5000\<rparr>)
       (Some ''pnet1'') None False
     = (vlan_request\<lparr>nd_segmentation_id := Attr 5000\<rparr>, Inl (InvalidInput msg_segid_out_of_range))
   \<and> validate_provider_create pnet1_env (vlan_request\<lparr>nd_segmentation_id := Attr 100\<rparr>)
       (Some ''pnet1'') None False
     = (vlan_request\<lparr>nd_segmentation_id := Attr 100\<rparr>,
        Inl (VlanIdInUse (PyInt 100) (Some ''pnet1'')))"
  using vlan_request_validation [of "vlan_request\<lparr>nd_segmentation_id := Attr 5000\<rparr>" False
           5000 pnet1_env "Some ''pnet1''" None]
        vlan_request_validation [of "vlan_request\<lparr>nd_segmentation_id := Attr 100\<rparr>" False
           100 pnet1_env "Some ''pnet1''" None]
  by (simp add: vlan_request_def MIN_VLAN_TAG_def MAX_VLAN_TAG_def effective_physical_net_def
      pnet1_env_def pnet1_store_def get_network_bindings_by_vlanid_and_physical_net_def)

text \<open>
  C10, as stated: a vlan request with the explicit segmentation id 0 gets a tag allocated,
  which overwrites the id in the request. It fails in transparent-VLAN mode: nothing is
  allocated, the request keeps the id 0 and 0 is the tag returned.
\<close>

theorem zero_segmentation_id_counterexample:
  "validate_provider_create pnet1_env (vlan_request\<lparr>nd_segmentation_id := Attr 0\<rparr>)
       (Some ''pnet1'') None True
     = (vlan_request\<lparr>nd_segmentation_id := Attr 0\<rparr>,
        Inr \<lparr>r_is_provider_net = True, r_net_type = Some VLAN,
             r_physical_net = Some ''pnet1'', r_vlan_id = PyInt 0,
             r_switch_mode = HOST_SWITCH_MODE_STANDARD\<rparr>)"
  by code_simp


text \<open>
  C10, amended: outside transparent-VLAN mode, a vlan request with the explicit segmentation
  id 0 has the outcome of the same request without segmentation id, and is never rejected
  as out of range: the segment allocator runs; when it fails the planner fails with
  \<open>NoNetworkAvailable\<close> and the request is untouched; when it returns a tag, the tag is a
  candidate of the physical network that is not bound there, it overwrites the
  segmentation id of the request, and it is the tag the planner returns.
\<close>

theorem zero_segmentation_id:
  assumes "nd_network_type nd = Attr VLAN" and "\<not> transparent_vlan"
    and "enumerates_sets (pe_list_of_set env)"
  shows "snd (validate_provider_create env (nd\<lparr>nd_segmentation_id := Attr 0\<rparr>) dv dov transparent_vlan)
           = snd (validate_provider_create env (nd\<lparr>nd_segmentation_id := AttrNone\<rparr>) dv dov transparent_vlan)
     \<and> snd (validate_provider_create env (nd\<lparr>nd_segmentation_id := Attr 0\<rparr>) dv dov transparent_vlan)
           \<noteq> Inl (InvalidInput msg_segid_out_of_range)
     \<and> (case generate_segment_id (pe_list_of_set env) (pe_session env) (pe_network_vlans env)
               (effective_physical_net nd dv) (nd\<lparr>nd_segmentation_id := Attr 0\<rparr>) of
          Inl e \<Rightarrow>
            validate_provider_create env (nd\<lparr>nd_segmentation_id := Attr 0\<rparr>) dv dov transparent_vlan
              = (nd\<lparr>nd_segmentation_id := Attr 0\<rparr>, Inl NoNetworkAvailable)
        | Inr (nd', tag) \<Rightarrow>
            fst (validate_provider_create env (nd\<lparr>nd_segmentation_id := Attr 0\<rparr>) dv dov transparent_vlan)
              = nd\<lparr>nd_segmentation_id := Attr tag\<rparr>
            \<and> tag \<in> candidate_vlan_ids (pe_network_vlans env) (effective_physical_net nd dv)
            \<and> Some tag \<notin> used_vlan_ids (pe_session env) (effective_physical_net nd dv)
            \<and> (snd (validate_provider_create env (nd\<lparr>nd_segmentation_id := Attr 0\<rparr>) dv dov transparent_vlan) = Inr r
                  \<longrightarrow> r_vlan_id r = PyInt tag))"
proof -
  let ?z = "nd\<lparr>nd_segmentation_id := Attr 0\<rparr>" and ?a = "nd\<lparr>nd_segmentation_id := AttrNone\<rparr>"
  let ?g = "\<lambda>x. generate_segment_id (pe_list_of_set env) (pe_session env) (pe_network_vlans env)
               (effective_physical_net nd dv) x"
  have tv: "transparent_vlan = False" using assms(2) by simp
  have tz: "nd_network_type ?z = Attr VLAN" and ta: "nd_network_type ?a = Attr VLAN"
    using assms(1) by simp_all
  have fz: "\<not> truthy (requested_vlan_id ?z)" and fa: "\<not> truthy (requested_vlan_id ?a)"
    by (simp_all add: requested_vlan_id_def)
  have gz: "?g ?z = ?g ?a"
    by (rule generate_segment_id_ignores_segid)
  have ez: "effective_physical_net ?z dv = effective_physical_net nd dv"
    and ea: "effective_physical_net ?a dv = effective_physical_net nd dv"
    by (simp_all add: effective_physical_net_def)
  have vz: "validate_provider_create env ?z dv dov False =
      (case ?g ?z of Inl e \<Rightarrow> (?z, Inl e)
       | Inr (nd', tag) \<Rightarrow> (nd', provider_tz_checks env dov True (Some VLAN)
            \<lparr>l_err_msg = None, l_physical_net = effective_physical_net nd dv,
                 l_vlan_id = PyInt tag, l_tz_type = TRANSPORT_TYPE_VLAN,
                 l_switch_mode = HOST_SWITCH_MODE_STANDARD, l_network_data = nd'\<rparr>))"
    unfolding validate_provider_create_vlan [OF tz] ez using fz by simp
  have va: "validate_provider_create env ?a dv dov False =
      (case ?g ?a of Inl e \<Rightarrow> (?a, Inl e)
       | Inr (nd', tag) \<Rightarrow> (nd', provider_tz_checks env dov True (Some VLAN)
            \<lparr>l_err_msg = None, l_physical_net = effective_physical_net nd dv,
                 l_vlan_id = PyInt tag, l_tz_type = TRANSPORT_TYPE_VLAN,
                 l_switch_mode = HOST_SWITCH_MODE_STANDARD, l_network_data = nd'\<rparr>))"
    unfolding validate_provider_create_vlan [OF ta] ea using fa by simp
  have c1: "snd (validate_provider_create env ?z dv dov False)
           = snd (validate_provider_create env ?a dv dov False)"
    unfolding vz va gz by (simp split: sum.splits)
  have c2: "snd (validate_provider_create env ?z dv dov False)
           \<noteq> Inl (InvalidInput msg_segid_out_of_range)"
    unfolding vz
    by (auto split: sum.splits simp: provider_tz_checks_not_range dest: generate_segment_id_error)
  have c3: "(case ?g ?z of
          Inl e \<Rightarrow> validate_provider_create env ?z dv dov False = (?z, Inl NoNetworkAvailable)
        | Inr (nd', tag) \<Rightarrow>
            fst (validate_provider_create env ?z dv dov False) = nd\<lparr>nd_segmentation_id := Attr tag\<rparr>
            \<and> tag \<in> candidate_vlan_ids (pe_network_vlans env) (effective_physical_net nd dv)
            \<and> Some tag \<notin> used_vlan_ids (pe_session env) (effective_physical_net nd dv)
            \<and> (snd (validate_provider_create env ?z dv dov False) = Inr r
                  \<longrightarrow> r_vlan_id r = PyInt tag))"
  proof (cases "?g ?z")
    case (Inl e)
    then show ?thesis using generate_segment_id_error [OF Inl] by (simp add: vz)
  next
    case (Inr b)
    obtain nd' tag where b: "b = (nd', tag)" by (cases b)
    have g: "?g ?z = Inr (nd', tag)" using Inr b by simp
    have "nd' = nd\<lparr>nd_segmentation_id := Attr tag\<rparr>"
      using generate_segment_id_request [OF g] by simp
    moreover have "tag \<in> candidate_vlan_ids (pe_network_vlans env) (effective_physical_net nd dv)
            \<and> Some tag \<notin> used_vlan_ids (pe_session env) (effective_physical_net nd dv)"
      using generate_segment_id_tag [OF assms(3) g] .
    ultimately show ?thesis using g
      by (auto simp: vz dest: provider_tz_checks_result)
  qed
  show ?thesis unfolding tv using c1 c2 c3 by simp
qed

theorem zero_segmentation_id_witness:
  "nd_network_type vlan_request = Attr VLAN \<and> enumerates_sets (pe_list_of_set pnet1_env) \<and>
   snd (validate_provider_create pnet1_env (vlan_request\<lparr>nd_segmentation_id := Attr 0\<rparr>)
          (Some ''pnet1'') None False)
     = snd (validate_provider_create pnet1_env (vlan_request\<lparr>nd_segmentation_id := AttrNone\<rparr>)
          (Some ''pnet1'') None False) \<and>
   snd (validate_provider_create pnet1_env (vlan_request\<lparr>nd_segmentation_id := Attr 0\<rparr>)
          (Some ''pnet1'') None False)
     \<noteq> Inl (InvalidInput msg_segid_out_of_range)"
proof -
  have h1: "nd_network_type vlan_request = Attr VLAN"
    by (simp add: vlan_request_def)
  have h2: "\<not> False"
    by simp
  have h3: "enumerates_sets (pe_list_of_set pnet1_env)"
    by (simp add: pnet1_env_def enumerates_sets_sorted)
  show ?thesis
    using h1 h3 zero_segmentation_id [OF h1 h2 h3, of "Some ''pnet1''" None] by blast
qed

section \<open>Properties of port validation\<close>

lemma and_then_Inr [simp]: "(and_then a b = Inr u) = (a = Inr () \<and> b = Inr ())"
  by (cases a) (simp_all add: and_then_def)

text \<open>
  C5, as stated: a request that asks for port security or MAC learning on a trusted port
  is rejected by the create validation and by the update validation. It fails for the
  create validation, which accepts a DHCP port with port security enabled.
\<close>

theorem trusted_port_counterexample:
  "is_port_trusted (pd_device_owner dhcp_port_request) = Inr True \<and>
   pd_port_security dhcp_port_request = Attr True \<and>
   validate_create_port plain_port_env dhcp_port_request = Inr ()"
  by (simp add: dhcp_port_request_def plain_port_env_def validate_create_port_def
      is_port_trusted_def startswith_def DEVICE_OWNER_NETWORK_PREFIX_def
      DEVICE_OWNER_ROUTER_INTF_def DEVICE_OWNER_ROUTER_GW_def raise_if_def
      assert_on_port_admin_state_def Let_def)

lemma and_then_assoc: "and_then (and_then a b) c = and_then a (and_then b c)"
  by (cases a) (simp_all add: and_then_def)

lemma validate_update_port_split:
  "validate_update_port env original port_data =
     and_then (update_checks_before_port_sec env original port_data)
       (and_then (assert_on_port_sec_change port_data (updated_device_owner original port_data))
       (and_then
          (raise_if (pv_validate_max_ips_per_port env
             (case pd_fixed_ips port_data of None \<Rightarrow> [] | Some ips \<Rightarrow> ips)
             (updated_device_owner original port_data)))
       (and_then (assert_on_vpn_port_change env original)
          (assert_on_lb_port_fixed_ip_change port_data (op_device_owner original)))))"
  by (simp add: validate_update_port_def update_checks_before_port_sec_def Let_def and_then_assoc)

text \<open>
  C5, amended: when the device owner that an update leaves on the port is trusted, an
  update request that itself asks for \<open>port_security_enabled=True\<close> or
  \<open>mac_learning_enabled=True\<close> is rejected by the update validation: with the error of
  one of the checks that run before (QoS, external network, device owner change, admin
  state) when one of them fails, and otherwise with the \<open>InvalidInput\<close> of the port
  security check; so an update request that the validation accepts for such a port asks for
  neither. The create validation makes no such check.
\<close>

theorem trusted_port_update:
  assumes "is_port_trusted (updated_device_owner original port_data) = Inr True"
  shows "(validate_update_port env original port_data = Inr ()
            \<longrightarrow> pd_port_security port_data \<noteq> Attr True
                \<and> pd_mac_learning port_data \<noteq> Attr True)
     \<and> (pd_port_security port_data = Attr True
            \<longrightarrow> validate_update_port env original port_data =
                  (case update_checks_before_port_sec env original port_data of
                     Inl e \<Rightarrow> Inl e
                   | Inr _ \<Rightarrow> Inl (InvalidInput msg_psec_trusted)))
     \<and> (pd_port_security port_data \<noteq> Attr True \<and> pd_mac_learning port_data = Attr True
            \<longrightarrow> validate_update_port env original port_data =
                  (case update_checks_before_port_sec env original port_data of
                     Inl e \<Rightarrow> Inl e
                   | Inr _ \<Rightarrow> Inl (InvalidInput msg_mac_trusted)))"
proof -
  have p: "assert_on_port_sec_change port_data (updated_device_owner original port_data)
             = Inl (InvalidInput msg_psec_trusted)"
    if "pd_port_security port_data = Attr True"
    using that assms by (simp add: assert_on_port_sec_change_def)
  have m: "assert_on_port_sec_change port_data (updated_device_owner original port_data)
             = Inl (InvalidInput msg_mac_trusted)"
    if "pd_port_security port_data \<noteq> Attr True" "pd_mac_learning port_data = Attr True"
    using that assms by (simp add: assert_on_port_sec_change_def)
  have a: "validate_update_port env original port_data =
                  (case update_checks_before_port_sec env original port_data of
                     Inl e \<Rightarrow> Inl e
                   | Inr _ \<Rightarrow> Inl (InvalidInput msg_psec_trusted))"
    if "pd_port_security port_data = Attr True"
    unfolding validate_update_port_split p [OF that]
    by (simp add: and_then_def split: sum.splits)
  have b: "validate_update_port env original port_data =
                  (case update_checks_before_port_sec env original port_data of
                     Inl e \<Rightarrow> Inl e
                   | Inr _ \<Rightarrow> Inl (InvalidInput msg_mac_trusted))"
    if "pd_port_security port_data \<noteq> Attr True" "pd_mac_learning port_data = Attr True"
    unfolding validate_update_port_split m [OF that]
    by (simp add: and_then_def split: sum.splits)
  have c: "pd_port_security port_data \<noteq> Attr True \<and> pd_mac_learning port_data \<noteq> Attr True"
    if ok: "validate_update_port env original port_data = Inr ()"
  proof (rule ccontr)
    assume "\<not> ?thesis"
    then consider "pd_port_security port_data = Attr True"
      | "pd_port_security port_data \<noteq> Attr True" "pd_mac_learning port_data = Attr True"
      by blast
    then show False
    proof cases
      case 1
      then show False using a ok by (simp split: sum.splits)
    next
      case 2
      then show False using b ok by (simp split: sum.splits)
    qed
  qed
  show ?thesis using a b c by blast
qed

theorem trusted_port_update_witness:
  "is_port_trusted (updated_device_owner dhcp_original_port dhcp_port_request) = Inr True \<and>
   pd_port_security dhcp_port_request = Attr True \<and>
   update_checks_before_port_sec plain_port_env dhcp_original_port dhcp_port_request = Inr () \<and>
   validate_update_port plain_port_env dhcp_original_port dhcp_port_request
     = Inl (InvalidInput msg_psec_trusted)"
proof -
  have h: "is_port_trusted (updated_device_owner dhcp_original_port dhcp_port_request)
             = Inr True"
    by (simp add: is_port_trusted_def updated_device_owner_def dhcp_port_request_def
        startswith_def DEVICE_OWNER_NETWORK_PREFIX_def)
  have p: "pd_port_security dhcp_port_request = Attr True"
    by (simp add: dhcp_port_request_def)
  have b: "update_checks_before_port_sec plain_port_env dhcp_original_port dhcp_port_request
             = Inr ()"
    by (simp add: update_checks_before_port_sec_def Let_def and_then_def plain_port_env_def
        dhcp_port_request_def dhcp_original_port_def updated_device_owner_def
        assert_on_device_owner_change_def assert_on_port_admin_state_def
        DEVICE_OWNER_LOADBALANCERV2_def DEVICE_OWNER_ROUTER_INTF_def DEVICE_OWNER_ROUTER_GW_def)
  show ?thesis
    using trusted_port_update [OF h, of plain_port_env] h p b by simp
qed

section \<open>Properties of the port update rollback\<close>

lemmas revert_simps = revert_neutron_port_update_def update_port_def
  delete_allowed_address_pairs_def process_create_allowed_address_pairs_def
  update_security_group_on_port_def Let_def

text \<open>
  C6, as stated: the rollback restores the port attributes, the address pairs and the
  security group bindings for every value of its inputs. It fails when \<open>port_security\<close>
  and \<open>sec_grp_updated\<close> are false: the address pair and the security group binding of
  the failed update stay in the store.
\<close>

theorem revert_port_update_counterexample:
  "ps_address_pairs
     (revert_neutron_port_update port1_store ''port-1'' port1_original port1_updated
        False False) ''port-1'' = [''10.0.0.8''] \<and>
   ps_security_groups
     (revert_neutron_port_update port1_store ''port-1'' port1_original port1_updated
        False False) ''port-1'' = [''sg-2''] \<and>
   p_allowed_address_pairs port1_original = Some [''10.0.0.7''] \<and>
   p_security_groups port1_original = [''sg-1'']"
  by (simp add: revert_simps port1_store_def port1_original_def)

text \<open>
  C6, amended: the rollback always writes the original port attributes back. It restores
  the original address pairs when \<open>port_security\<close> is true and they differ from the
  updated ones, and leaves the stored pairs alone when \<open>port_security\<close> is false. It
  restores the original security group bindings when \<open>sec_grp_updated\<close> is true, and
  leaves the stored bindings alone when it is false.
\<close>

theorem revert_port_update:
  "ps_ports (revert_neutron_port_update st port_id original updated port_security
               sec_grp_updated) port_id = Some original
   \<and> (port_security \<and> p_id original = port_id
        \<and> p_allowed_address_pairs original \<noteq> p_allowed_address_pairs updated
        \<longrightarrow> ps_address_pairs (revert_neutron_port_update st port_id original updated
               port_security sec_grp_updated) port_id
            = (case p_allowed_address_pairs original of None \<Rightarrow> [] | Some pairs \<Rightarrow> pairs))
   \<and> (\<not> port_security
        \<longrightarrow> ps_address_pairs (revert_neutron_port_update st port_id original updated
               port_security sec_grp_updated) = ps_address_pairs st)
   \<and> (sec_grp_updated
        \<longrightarrow> ps_security_groups (revert_neutron_port_update st port_id original updated
               port_security sec_grp_updated) port_id = p_security_groups original)
   \<and> (\<not> sec_grp_updated
        \<longrightarrow> ps_security_groups (revert_neutron_port_update st port_id original updated
               port_security sec_grp_updated) = ps_security_groups st)"
  by (auto simp: revert_simps split: option.splits)

theorem revert_port_update_witness:
  "p_id port1_original = ''port-1'' \<and>
   p_allowed_address_pairs port1_original \<noteq> p_allowed_address_pairs port1_updated \<and>
   ps_address_pairs
     (revert_neutron_port_update port1_store ''port-1'' port1_original port1_updated
        True True) ''port-1'' = [''10.0.0.7''] \<and>
   ps_security_groups
     (revert_neutron_port_update port1_store ''port-1'' port1_original port1_updated
        True True) ''port-1'' = [''sg-1'']"
  using revert_port_update [of port1_store "''port-1''" port1_original port1_updated True True]
  by (simp add: port1_original_def port1_updated_def)

section \<open>Properties of native DHCP\<close>

lemma bind_st_simps [simp]:
  "bind_st (s, Inr u) f = f s"
  "bind_st (s, Inl e) f = (s, Inl e)"
  by (simp_all add: bind_st_def)

lemma attempt_simps [simp]:
  "attempt None s s' = (s', Inr ())"
  "attempt (Some e) s s' = (s, Inl e)"
  by (simp_all add: attempt_def)

lemma save_and_reraise_simps [simp]:
  "save_and_reraise e (s, Inr u) = (s, Inl e)"
  "save_and_reraise e (s, Inl e') = (s, Inl e')"
  by (simp_all add: save_and_reraise_def)

lemmas dhcp_op_defs = neutron_create_port_def neutron_delete_port_def dhcp_server_create_def
  dhcp_server_delete_def logical_port_create_def logical_port_delete_def
  add_neutron_nsx_port_mapping_def add_neutron_nsx_service_binding_def
  delete_neutron_nsx_service_binding_def delete_neutron_nsx_dhcp_bindings_by_service_id_def
  add_dhcp_binding_def log_error_def

lemma snd_bind_st_ok:
  "(snd (bind_st r f) = Inr ()) = (snd r = Inr () \<and> snd (f (fst r)) = Inr ())"
  by (cases r; cases "snd r") (auto simp: bind_st_def)

lemma attempt_ok [simp]: "(snd (attempt x s s') = Inr ()) = (x = None)"
  by (cases x) simp_all

lemma bind_st_ok: "snd r = Inr () \<Longrightarrow> bind_st r f = f (fst r)"
  by (cases r) simp

lemma bind_st_fail: "snd r = Inl e \<Longrightarrow> bind_st r f = r"
  by (cases r) simp

lemma cleanup_port_shrinks:
  "ds_ports (fst (cleanup_port env s p n)) \<subseteq>\<^sub>m ds_ports s \<and>
   ds_dhcp_servers (fst (cleanup_port env s p n)) = ds_dhcp_servers s \<and>
   ds_logical_ports (fst (cleanup_port env s p n)) \<subseteq> ds_logical_ports s \<and>
   ds_service_bindings (fst (cleanup_port env s p n)) = ds_service_bindings s"
  by (cases "fail_delete_port env p"; cases n; cases "fail_logical_port_delete env (the n)")
     (auto simp: cleanup_port_def dhcp_op_defs map_le_def)

lemma delete_dhcp_port_shrinks:
  "ds_ports (fst (delete_dhcp_port env s svc)) \<subseteq>\<^sub>m ds_ports s \<and>
   ds_dhcp_servers (fst (delete_dhcp_port env s svc)) = ds_dhcp_servers s \<and>
   ds_logical_ports (fst (delete_dhcp_port env s svc)) \<subseteq> ds_logical_ports s \<and>
   ds_service_bindings (fst (delete_dhcp_port env s svc)) = ds_service_bindings s"
  unfolding delete_dhcp_port_def using cleanup_port_shrinks
  by (auto simp: Let_def log_error_def split: option.splits)

lemma delete_dhcp_server_shrinks:
  "ds_ports (fst (delete_dhcp_server env s svc)) = ds_ports s \<and>
   ds_dhcp_servers (fst (delete_dhcp_server env s svc)) \<subseteq> ds_dhcp_servers s \<and>
   ds_logical_ports (fst (delete_dhcp_server env s svc)) = ds_logical_ports s \<and>
   ds_service_bindings (fst (delete_dhcp_server env s svc)) = ds_service_bindings s"
  by (cases "fail_server_delete env (sb_nsx_service_id svc)")
     (auto simp: delete_dhcp_server_def dhcp_op_defs Let_def)

lemma delete_dhcp_server_ok:
  "(snd (delete_dhcp_server env s svc) = Inr ())
     = (fail_server_delete env (sb_nsx_service_id svc) = None)"
  by (cases "fail_server_delete env (sb_nsx_service_id svc)")
     (auto simp: delete_dhcp_server_def dhcp_op_defs Let_def)

lemma delete_dhcp_mappings_shrinks:
  "ds_ports (fst (delete_dhcp_mappings env s n svc)) = ds_ports s \<and>
   ds_dhcp_servers (fst (delete_dhcp_mappings env s n svc)) = ds_dhcp_servers s \<and>
   ds_logical_ports (fst (delete_dhcp_mappings env s n svc)) = ds_logical_ports s"
  by (cases "fail_delete_service_binding env"; cases "fail_delete_dhcp_bindings env")
     (auto simp: delete_dhcp_mappings_def dhcp_op_defs Let_def)

lemma delete_dhcp_mappings_ok:
  "(snd (delete_dhcp_mappings env s n svc) = Inr ())
     = (fail_delete_service_binding env = None \<and> fail_delete_dhcp_bindings env = None)"
  by (cases "fail_delete_service_binding env"; cases "fail_delete_dhcp_bindings env")
     (auto simp: delete_dhcp_mappings_def dhcp_op_defs Let_def)

lemma delete_dhcp_mappings_binding:
  "snd (delete_dhcp_mappings env s n svc) = Inr ()
     \<Longrightarrow> ds_service_bindings (fst (delete_dhcp_mappings env s n svc)) n = None"
  by (simp add: delete_dhcp_mappings_ok) (simp add: delete_dhcp_mappings_def dhcp_op_defs Let_def)

lemma disable_native_dhcp_steps:
  assumes "ds_service_bindings st n = Some svc"
  shows "disable_native_dhcp env st n =
     bind_st (delete_dhcp_port env st svc)
        (\<lambda>st. bind_st (delete_dhcp_server env st svc)
        (\<lambda>st. delete_dhcp_mappings env st n svc))"
  by (simp add: disable_native_dhcp_def assms)

lemma fst_bind_st_cases:
  "fst (bind_st r f) = (case snd r of Inl e \<Rightarrow> fst r | Inr u \<Rightarrow> fst (f (fst r)))"
  by (cases r; cases "snd r") (auto simp: bind_st_def)

lemma disable_native_dhcp_shrinks:
  "ds_ports (fst (disable_native_dhcp env st n)) \<subseteq>\<^sub>m ds_ports st \<and>
   ds_dhcp_servers (fst (disable_native_dhcp env st n)) \<subseteq> ds_dhcp_servers st \<and>
   ds_logical_ports (fst (disable_native_dhcp env st n)) \<subseteq> ds_logical_ports st"
proof (cases "ds_service_bindings st n")
  case None
  then show ?thesis by (simp add: disable_native_dhcp_def)
next
  case (Some svc)
  let ?s1 = "fst (delete_dhcp_port env st svc)"
  let ?s2 = "fst (delete_dhcp_server env ?s1 svc)"
  let ?s3 = "fst (delete_dhcp_mappings env ?s2 n svc)"
  have 1: "ds_ports ?s1 \<subseteq>\<^sub>m ds_ports st" "ds_dhcp_servers ?s1 = ds_dhcp_servers st"
     "ds_logical_ports ?s1 \<subseteq> ds_logical_ports st"
    using delete_dhcp_port_shrinks by blast+
  have 2: "ds_ports ?s2 = ds_ports ?s1" "ds_dhcp_servers ?s2 \<subseteq> ds_dhcp_servers ?s1"
     "ds_logical_ports ?s2 = ds_logical_ports ?s1"
    using delete_dhcp_server_shrinks by blast+
  have 3: "ds_ports ?s3 = ds_ports ?s2" "ds_dhcp_servers ?s3 = ds_dhcp_servers ?s2"
     "ds_logical_ports ?s3 = ds_logical_ports ?s2"
    using delete_dhcp_mappings_shrinks by blast+
  have "fst (disable_native_dhcp env st n) = ?s1 \<or> fst (disable_native_dhcp env st n) = ?s2
       \<or> fst (disable_native_dhcp env st n) = ?s3"
    unfolding disable_native_dhcp_steps [OF Some]
    by (simp add: fst_bind_st_cases split: sum.splits)
  then show ?thesis using 1 2 3 by auto
qed

lemma disable_native_dhcp_binding:
  assumes "snd (disable_native_dhcp env st n) = Inr ()"
  shows "ds_service_bindings (fst (disable_native_dhcp env st n)) n = None"
proof (cases "ds_service_bindings st n")
  case None
  then show ?thesis by (simp add: disable_native_dhcp_def)
next
  case (Some svc)
  from assms show ?thesis
    unfolding disable_native_dhcp_steps [OF Some]
    by (auto simp: snd_bind_st_ok bind_st_ok delete_dhcp_mappings_binding)
qed


lemma add_dhcp_bindings_frame:
  "ds_service_bindings (fst (add_dhcp_bindings env s sid ps)) = ds_service_bindings s \<and>
   ds_ports (fst (add_dhcp_bindings env s sid ps)) = ds_ports s \<and>
   ds_port_mappings (fst (add_dhcp_bindings env s sid ps)) = ds_port_mappings s \<and>
   ds_dhcp_servers (fst (add_dhcp_bindings env s sid ps)) = ds_dhcp_servers s \<and>
   ds_logical_ports (fst (add_dhcp_bindings env s sid ps)) = ds_logical_ports s \<and>
   ds_log (fst (add_dhcp_bindings env s sid ps)) = ds_log s"
proof (induction ps arbitrary: s)
  case Nil
  show ?case by simp
next
  case (Cons p ps)
  show ?case
  proof (cases "fail_add_dhcp_binding env p")
    case None
    then show ?thesis using Cons.IH by (simp add: add_dhcp_binding_def)
  next
    case (Some e)
    then show ?thesis by (simp add: add_dhcp_binding_def)
  qed
qed

lemma add_dhcp_bindings_fails:
  "(snd (add_dhcp_bindings env s sid ps) \<noteq> Inr ())
     = (\<exists>p \<in> set ps. fail_add_dhcp_binding env p \<noteq> None)"
proof (induction ps arbitrary: s)
  case Nil
  show ?case by simp
next
  case (Cons p ps)
  show ?case
  proof (cases "fail_add_dhcp_binding env p")
    case None
    then show ?thesis using Cons.IH by (simp add: add_dhcp_binding_def)
  next
    case (Some e)
    then show ?thesis by (simp add: add_dhcp_binding_def)
  qed
qed

lemma configure_existing_ports_ok: "snd (configure_existing_ports env s) = Inr ()"
  by (cases "snd (add_dhcp_bindings env s (de_new_server_id env) (de_existing_ports env))")
     (simp_all add: configure_existing_ports_def Let_def)

lemma configure_existing_ports_frame:
  "ds_service_bindings (fst (configure_existing_ports env s)) = ds_service_bindings s \<and>
   ds_ports (fst (configure_existing_ports env s)) = ds_ports s \<and>
   ds_port_mappings (fst (configure_existing_ports env s)) = ds_port_mappings s \<and>
   ds_dhcp_servers (fst (configure_existing_ports env s)) = ds_dhcp_servers s \<and>
   ds_logical_ports (fst (configure_existing_ports env s)) = ds_logical_ports s"
  using add_dhcp_bindings_frame [of env s "de_new_server_id env" "de_existing_ports env"]
  by (cases "snd (add_dhcp_bindings env s (de_new_server_id env) (de_existing_ports env))")
     (simp_all add: configure_existing_ports_def Let_def log_error_def)

lemma configure_existing_ports_log:
  assumes "\<exists>p \<in> set (de_existing_ports env). fail_add_dhcp_binding env p \<noteq> None"
  shows "msg_bindings_failed \<in> set (ds_log (fst (configure_existing_ports env s)))"
proof -
  have "snd (add_dhcp_bindings env s (de_new_server_id env) (de_existing_ports env)) \<noteq> Inr ()"
    using assms by (simp add: add_dhcp_bindings_fails)
  then show ?thesis
    by (cases "snd (add_dhcp_bindings env s (de_new_server_id env) (de_existing_ports env))")
       (simp_all add: configure_existing_ports_def Let_def log_error_def)
qed

lemma create_backend_ok:
  "(snd (create_backend env s) = Inr ())
     = (fail_server_create env = None \<and> fail_build_port_name env = None
        \<and> fail_logical_port_create env = None)"
  by (cases "fail_server_create env"; cases "fail_build_port_name env";
      cases "fail_logical_port_create env";
      cases "fail_server_delete env (de_new_server_id env)";
      cases "fail_delete_port env (de_new_port_id env)")
     (simp_all add: create_backend_def create_backend_handler_def dhcp_op_defs Let_def)

lemma create_backend_state:
  assumes "snd (create_backend env s) = Inr ()"
  shows "fst (create_backend env s) =
     s\<lparr>ds_dhcp_servers := insert (de_new_server_id env) (ds_dhcp_servers s),
       ds_logical_ports := insert (de_new_nsx_port_id env) (ds_logical_ports s)\<rparr>"
  using assms unfolding create_backend_ok
  by (simp add: create_backend_def create_backend_handler_def dhcp_op_defs Let_def)

lemma store_mappings_ok:
  "(snd (store_mappings env s n nid) = Inr ())
     = (fail_add_port_mapping env = None \<and> fail_add_service_binding env = None)"
  by (cases "fail_add_port_mapping env"; cases "fail_add_service_binding env";
      cases "fail_server_delete env (de_new_server_id env)";
      cases "fail_delete_port env (de_new_port_id env)";
      cases "fail_logical_port_delete env (de_new_nsx_port_id env)")
     (simp_all add: store_mappings_def cleanup_port_def dhcp_op_defs Let_def)

lemma store_mappings_state:
  assumes "snd (store_mappings env s n nid) = Inr ()"
  shows "fst (store_mappings env s n nid) =
     s\<lparr>ds_port_mappings := (ds_port_mappings s)(de_new_port_id env \<mapsto> (nid, de_new_nsx_port_id env)),
       ds_service_bindings := (ds_service_bindings s)(n \<mapsto>
            \<lparr>sb_port_id = Some (de_new_port_id env), sb_nsx_service_id = de_new_server_id env\<rparr>)\<rparr>"
  using assms unfolding store_mappings_ok
  by (simp add: store_mappings_def dhcp_op_defs Let_def)


lemma create_dhcp_service_ok:
  "(snd (create_dhcp_service env s n nid) = Inr ())
     = (fail_create_port env = None \<and> fail_preprocess_security env = None \<and>
        fail_server_create env = None \<and> fail_build_port_name env = None \<and>
        fail_logical_port_create env = None \<and> fail_add_port_mapping env = None \<and>
        fail_add_service_binding env = None)"
  by (simp add: create_dhcp_service_def snd_bind_st_ok neutron_create_port_def
      create_backend_ok store_mappings_ok configure_existing_ports_ok)

lemma create_dhcp_service_steps:
  assumes "snd (create_dhcp_service env s n nid) = Inr ()"
  shows "\<exists>s4. create_dhcp_service env s n nid = configure_existing_ports env s4 \<and>
     s4 = s\<lparr>ds_ports := (ds_ports s)(de_new_port_id env \<mapsto>
                \<lparr>np_network_id = n, np_device_owner = DEVICE_OWNER_DHCP,
                 np_port_security = False\<rparr>),
            ds_dhcp_servers := insert (de_new_server_id env) (ds_dhcp_servers s),
            ds_logical_ports := insert (de_new_nsx_port_id env) (ds_logical_ports s),
            ds_port_mappings := (ds_port_mappings s)(de_new_port_id env \<mapsto>
                (nid, de_new_nsx_port_id env)),
            ds_service_bindings := (ds_service_bindings s)(n \<mapsto>
                \<lparr>sb_port_id = Some (de_new_port_id env),
                 sb_nsx_service_id = de_new_server_id env\<rparr>)\<rparr>"
proof -
  define s2 where "s2 = s\<lparr>ds_ports := (ds_ports s)(de_new_port_id env \<mapsto>
                     \<lparr>np_network_id = n, np_device_owner = DEVICE_OWNER_DHCP,
                      np_port_security = False\<rparr>)\<rparr>"
  define s3 where "s3 = fst (create_backend env s2)"
  define s4 where "s4 = fst (store_mappings env s3 n nid)"
  from assms have f: "fail_create_port env = None" "fail_preprocess_security env = None"
    and b: "snd (create_backend env s2) = Inr ()"
    and m: "snd (store_mappings env s3 n nid) = Inr ()"
    by (simp_all add: create_dhcp_service_ok create_backend_ok store_mappings_ok)
  have e: "create_dhcp_service env s n nid = configure_existing_ports env s4"
    unfolding s4_def s3_def s2_def
    using b m
    by (simp add: create_dhcp_service_def neutron_create_port_def f bind_st_ok s2_def s3_def)
  have s3: "s3 = s2\<lparr>ds_dhcp_servers := insert (de_new_server_id env) (ds_dhcp_servers s2),
       ds_logical_ports := insert (de_new_nsx_port_id env) (ds_logical_ports s2)\<rparr>"
    unfolding s3_def by (rule create_backend_state [OF b])
  have s4: "s4 = s3\<lparr>ds_port_mappings := (ds_port_mappings s3)(de_new_port_id env \<mapsto>
                (nid, de_new_nsx_port_id env)),
       ds_service_bindings := (ds_service_bindings s3)(n \<mapsto>
            \<lparr>sb_port_id = Some (de_new_port_id env), sb_nsx_service_id = de_new_server_id env\<rparr>)\<rparr>"
    unfolding s4_def by (rule store_mappings_state [OF m])
  show ?thesis
    using e by (simp add: s4 s3 s2_def)
qed

lemma create_dhcp_service_state:
  assumes "snd (create_dhcp_service env s n nid) = Inr ()"
  shows "ds_service_bindings (fst (create_dhcp_service env s n nid)) n
           = Some \<lparr>sb_port_id = Some (de_new_port_id env),
                   sb_nsx_service_id = de_new_server_id env\<rparr> \<and>
         ds_ports (fst (create_dhcp_service env s n nid)) (de_new_port_id env)
           = Some \<lparr>np_network_id = n, np_device_owner = DEVICE_OWNER_DHCP,
                   np_port_security = False\<rparr> \<and>
         ds_port_mappings (fst (create_dhcp_service env s n nid)) (de_new_port_id env)
           = Some (nid, de_new_nsx_port_id env) \<and>
         de_new_server_id env \<in> ds_dhcp_servers (fst (create_dhcp_service env s n nid)) \<and>
         de_new_nsx_port_id env \<in> ds_logical_ports (fst (create_dhcp_service env s n nid))"
proof -
  from create_dhcp_service_steps [OF assms] obtain s4 where
    e: "create_dhcp_service env s n nid = configure_existing_ports env s4"
    and s4: "s4 = s\<lparr>ds_ports := (ds_ports s)(de_new_port_id env \<mapsto>
                \<lparr>np_network_id = n, np_device_owner = DEVICE_OWNER_DHCP,
                 np_port_security = False\<rparr>),
            ds_dhcp_servers := insert (de_new_server_id env) (ds_dhcp_servers s),
            ds_logical_ports := insert (de_new_nsx_port_id env) (ds_logical_ports s),
            ds_port_mappings := (ds_port_mappings s)(de_new_port_id env \<mapsto>
                (nid, de_new_nsx_port_id env)),
            ds_service_bindings := (ds_service_bindings s)(n \<mapsto>
                \<lparr>sb_port_id = Some (de_new_port_id env),
                 sb_nsx_service_id = de_new_server_id env\<rparr>)\<rparr>"
    by blast
  show ?thesis
    unfolding e by (simp add: configure_existing_ports_frame) (simp add: s4)
qed

lemma create_dhcp_service_log:
  assumes "snd (create_dhcp_service env s n nid) = Inr ()"
    and "\<exists>p \<in> set (de_existing_ports env). fail_add_dhcp_binding env p \<noteq> None"
  shows "msg_bindings_failed \<in> set (ds_log (fst (create_dhcp_service env s n nid)))"
proof -
  from create_dhcp_service_steps [OF assms(1)] obtain s4 where
    e: "create_dhcp_service env s n nid = configure_existing_ports env s4"
    by blast
  show ?thesis
    unfolding e by (rule configure_existing_ports_log [OF assms(2)])
qed









lemma delete_dhcp_port_ok:
  "(snd (delete_dhcp_port env st svc) = Inr ()) = port_cleanup_tolerated env st svc"
  by (cases "sb_port_id svc")
     (auto simp: delete_dhcp_port_def port_cleanup_tolerated_def Let_def)





text \<open>
  C8, as stated: the error of step 7 is the only one that is swallowed. It fails when the
  network has a previous binding whose logical port the backend does not find: with no
  existing port on the subnet, so that step 7 calls nothing, the deletion of the logical
  port raises \<^verbatim>\<open>ResourceNotFound\<close> and enabling returns normally.
\<close>

theorem enable_native_dhcp_swallowed_errors_counterexample:
  "de_existing_ports stale_port_env = [] \<and>
   ds_port_mappings enabled_dhcp_state ''old-port'' = Some (''ls-1'', ''old-lport'') \<and>
   fail_logical_port_delete stale_port_env ''old-lport'' = Some ResourceNotFound \<and>
   snd (enable_native_dhcp stale_port_env enabled_dhcp_state ''net-a'') = Inr ()"
  by (simp add: enable_native_dhcp_def create_dhcp_service_def create_backend_def
      create_backend_handler_def store_mappings_def configure_existing_ports_def
      disable_native_dhcp_def delete_dhcp_port_def delete_dhcp_server_def
      delete_dhcp_mappings_def cleanup_port_def dhcp_op_defs Let_def
      stale_port_env_def ok_dhcp_env_def enabled_dhcp_state_def)

text \<open>
  C8, amended: whatever the DHCP bindings of the existing ports raise, enabling returns
  normally when the steps before them pass, with the service binding, the local DHCP port,
  its port mapping, the backend DHCP server and its logical port in place, and the failure
  logged. In enabling, with the disabling it starts with, the only other exception that is
  swallowed is a \<^verbatim>\<open>ResourceNotFound\<close> raised while the DHCP port of a previous binding is
  cleaned up: enabling returns normally exactly when disabling does, the network has a
  backend id and every call of steps 3 to 6 succeeds; disabling returns normally exactly
  when there is no binding, or the port cleanup goes through or raises
  \<^verbatim>\<open>ResourceNotFound\<close> and the deletions of the server and of the mappings succeed.
\<close>

theorem enable_native_dhcp_swallowed_errors:
  "(snd (enable_native_dhcp env st n) = Inr ())
     = (snd (disable_native_dhcp env st n) = Inr () \<and>
        (\<exists>nid. de_nsx_net_id env n = Some nid \<and> nid \<noteq> []) \<and>
        fail_create_port env = None \<and> fail_preprocess_security env = None \<and>
        fail_server_create env = None \<and> fail_build_port_name env = None \<and>
        fail_logical_port_create env = None \<and> fail_add_port_mapping env = None \<and>
        fail_add_service_binding env = None)
   \<and> (snd (enable_native_dhcp env st n) = Inr () \<longrightarrow>
        ds_service_bindings (fst (enable_native_dhcp env st n)) n
           = Some \<lparr>sb_port_id = Some (de_new_port_id env),
                   sb_nsx_service_id = de_new_server_id env\<rparr> \<and>
        ds_ports (fst (enable_native_dhcp env st n)) (de_new_port_id env)
           = Some \<lparr>np_network_id = n, np_device_owner = DEVICE_OWNER_DHCP,
                   np_port_security = False\<rparr> \<and>
        (\<exists>nid. ds_port_mappings (fst (enable_native_dhcp env st n)) (de_new_port_id env)
           = Some (nid, de_new_nsx_port_id env)) \<and>
        de_new_server_id env \<in> ds_dhcp_servers (fst (enable_native_dhcp env st n)) \<and>
        de_new_nsx_port_id env \<in> ds_logical_ports (fst (enable_native_dhcp env st n)) \<and>
        ((\<exists>p \<in> set (de_existing_ports env). fail_add_dhcp_binding env p \<noteq> None)
           \<longrightarrow> msg_bindings_failed \<in> set (ds_log (fst (enable_native_dhcp env st n)))))
   \<and> (snd (disable_native_dhcp env st n) = Inr ())
     = (case ds_service_bindings st n of
          None \<Rightarrow> True
        | Some svc \<Rightarrow>
            port_cleanup_tolerated env st svc \<and>
            fail_server_delete env (sb_nsx_service_id svc) = None \<and>
            fail_delete_service_binding env = None \<and> fail_delete_dhcp_bindings env = None)"
proof -
  have A: "(snd (enable_native_dhcp env st n) = Inr ())
     = (snd (disable_native_dhcp env st n) = Inr () \<and>
        (\<exists>nid. de_nsx_net_id env n = Some nid \<and> nid \<noteq> []) \<and>
        fail_create_port env = None \<and> fail_preprocess_security env = None \<and>
        fail_server_create env = None \<and> fail_build_port_name env = None \<and>
        fail_logical_port_create env = None \<and> fail_add_port_mapping env = None \<and>
        fail_add_service_binding env = None)"
    by (cases "de_nsx_net_id env n")
       (auto simp: enable_native_dhcp_def snd_bind_st_ok create_dhcp_service_ok)
  have B: "ds_service_bindings (fst (enable_native_dhcp env st n)) n
           = Some \<lparr>sb_port_id = Some (de_new_port_id env),
                   sb_nsx_service_id = de_new_server_id env\<rparr> \<and>
        ds_ports (fst (enable_native_dhcp env st n)) (de_new_port_id env)
           = Some \<lparr>np_network_id = n, np_device_owner = DEVICE_OWNER_DHCP,
                   np_port_security = False\<rparr> \<and>
        (\<exists>nid. ds_port_mappings (fst (enable_native_dhcp env st n)) (de_new_port_id env)
           = Some (nid, de_new_nsx_port_id env)) \<and>
        de_new_server_id env \<in> ds_dhcp_servers (fst (enable_native_dhcp env st n)) \<and>
        de_new_nsx_port_id env \<in> ds_logical_ports (fst (enable_native_dhcp env st n)) \<and>
        ((\<exists>p \<in> set (de_existing_ports env). fail_add_dhcp_binding env p \<noteq> None)
           \<longrightarrow> msg_bindings_failed \<in> set (ds_log (fst (enable_native_dhcp env st n))))"
    if ok: "snd (enable_native_dhcp env st n) = Inr ()"
  proof -
    from ok A obtain nid where d: "snd (disable_native_dhcp env st n) = Inr ()"
      and nid: "de_nsx_net_id env n = Some nid" "nid \<noteq> []"
      by blast
    let ?s1 = "fst (disable_native_dhcp env st n)"
    have e: "enable_native_dhcp env st n = create_dhcp_service env ?s1 n nid"
      by (simp add: enable_native_dhcp_def bind_st_ok [OF d] nid)
    have c: "snd (create_dhcp_service env ?s1 n nid) = Inr ()"
      using ok e by simp
    show ?thesis
      unfolding e
      using create_dhcp_service_state [OF c] create_dhcp_service_log [OF c] by blast
  qed
  have C: "(snd (disable_native_dhcp env st n) = Inr ())
     = (case ds_service_bindings st n of
          None \<Rightarrow> True
        | Some svc \<Rightarrow>
            port_cleanup_tolerated env st svc \<and>
            fail_server_delete env (sb_nsx_service_id svc) = None \<and>
            fail_delete_service_binding env = None \<and> fail_delete_dhcp_bindings env = None)"
    by (cases "ds_service_bindings st n")
       (simp_all add: disable_native_dhcp_def snd_bind_st_ok delete_dhcp_server_ok
          delete_dhcp_mappings_ok delete_dhcp_port_ok)
  show ?thesis using A B C by blast
qed

theorem enable_native_dhcp_swallowed_errors_witness:
  "fail_add_dhcp_binding failing_bindings_env ''vm-port'' \<noteq> None \<and>
   ''vm-port'' \<in> set (de_existing_ports failing_bindings_env) \<and>
   snd (enable_native_dhcp failing_bindings_env empty_dhcp_state ''net-a'') = Inr () \<and>
   ds_service_bindings
     (fst (enable_native_dhcp failing_bindings_env empty_dhcp_state ''net-a'')) ''net-a''
     = Some \<lparr>sb_port_id = Some ''dhcp-port'', sb_nsx_service_id = ''dhcp-server''\<rparr> \<and>
   msg_bindings_failed
     \<in> set (ds_log (fst (enable_native_dhcp failing_bindings_env empty_dhcp_state ''net-a'')))"
proof -
  have f: "fail_add_dhcp_binding failing_bindings_env ''vm-port'' \<noteq> None"
    "''vm-port'' \<in> set (de_existing_ports failing_bindings_env)"
    by (simp_all add: failing_bindings_env_def ok_dhcp_env_def)
  have d: "snd (disable_native_dhcp failing_bindings_env empty_dhcp_state ''net-a'') = Inr ()"
    by (simp add: disable_native_dhcp_def empty_dhcp_state_def)
  have e: "(\<exists>nid. de_nsx_net_id failing_bindings_env ''net-a'' = Some nid \<and> nid \<noteq> []) \<and>
        fail_create_port failing_bindings_env = None \<and>
        fail_preprocess_security failing_bindings_env = None \<and>
        fail_server_create failing_bindings_env = None \<and>
        fail_build_port_name failing_bindings_env = None \<and>
        fail_logical_port_create failing_bindings_env = None \<and>
        fail_add_port_mapping failing_bindings_env = None \<and>
        fail_add_service_binding failing_bindings_env = None"
    by (simp add: failing_bindings_env_def ok_dhcp_env_def)
  have i: "de_new_port_id failing_bindings_env = ''dhcp-port''"
    "de_new_server_id failing_bindings_env = ''dhcp-server''"
    by (simp_all add: failing_bindings_env_def ok_dhcp_env_def)
  show ?thesis
    using enable_native_dhcp_swallowed_errors
      [of failing_bindings_env empty_dhcp_state "''net-a''"] f d e
    unfolding i by blast
qed

end
